theory Spec2Isabelle
  imports Complex_Main "HOL-Library.Char_ord" "HOL-Library.List_Lexorder"
begin

section \<open>Expression trees\<close>

text \<open>
  The notebook \<^verbatim>\<open>docs/widget.ipynb\<close> builds one SymPy expression and transforms it with
  \<^verbatim>\<open>doit\<close>, \<^verbatim>\<open>xreplace\<close>, \<^verbatim>\<open>free_symbols\<close> and \<^verbatim>\<open>lambdify\<close>. An expression is an
  immutable tree; every node kind that the notebook constructs is a constructor here:

  \<^item> \<open>Integer\<close>, \<open>Pi\<close>, \<open>ImaginaryUnit\<close>: the exact constants \<^verbatim>\<open>2\<close>, \<^verbatim>\<open>sp.pi\<close>, \<^verbatim>\<open>sp.I\<close>;
  \<^item> \<open>Num\<close>: any other numeric literal (a float or a complex number that a binding puts
    into the tree);
  \<^item> \<open>Symbol\<close>: \<^verbatim>\<open>sp.Symbol(name)\<close>; \<open>IndexedBase\<close> and \<open>Indexed\<close>: \<^verbatim>\<open>sp.IndexedBase(name)\<close>
    and \<^verbatim>\<open>base[i, j, ...]\<close>;
  \<^item> \<open>Add\<close>, \<open>Mul\<close>: n-ary sums and products; \<open>Pow_sp\<close>: \<^verbatim>\<open>b ** n\<close> for a literal
    natural number \<^verbatim>\<open>n\<close> (the notebook only squares);
  \<^item> \<open>Abs\<close>, \<open>re\<close>, \<open>im\<close>, \<open>exp_sp\<close>: \<^verbatim>\<open>sp.Abs\<close>, \<^verbatim>\<open>sp.re\<close>, \<^verbatim>\<open>sp.im\<close>, \<^verbatim>\<open>sp.exp\<close>;
  \<^item> \<open>Ynm\<close>: SymPy's spherical harmonic \<^verbatim>\<open>Ynm(n, m, theta, phi)\<close>;
  \<^item> \<open>Ynm_expanded\<close>: the formula in elementary functions of \<^verbatim>\<open>theta\<close> and \<^verbatim>\<open>phi\<close> that
    \<^verbatim>\<open>expand(func=True)\<close> writes in place of \<^verbatim>\<open>Ynm(n, m, theta, phi)\<close>, kept as one node;
  \<^item> \<open>Znm\<close>: the notebook's class \<^verbatim>\<open>Znm(n, m, theta, phi, Phi)\<close>;
  \<^item> \<open>PoolSum\<close>: AmpForm's \<^verbatim>\<open>PoolSum(expression, (index, values), ...)\<close>; the values
    of an index are the integers that \<^verbatim>\<open>create_range\<close> and \<^verbatim>\<open>k_values\<close> supply.

  The tree is kept as it is built. SymPy's automatic normalisation (flattening, ordering
  of arguments, collecting equal terms, rewriting \<^verbatim>\<open>Ynm\<close> with a negative \<^verbatim>\<open>m\<close> through the
  harmonic with \<^verbatim>\<open>-m\<close>) is not part of the model; it does not change the value of an
  expression. The constructor of \<^verbatim>\<open>PoolSum\<close> refuses an index without values
  (\<^verbatim>\<open>ValueError\<close>); a valid input of the assembler has non-empty ranges.
\<close>

datatype expr =
    Integer int
  | Pi
  | ImaginaryUnit
  | Num complex
  | Symbol string
  | IndexedBase string
  | Indexed expr "expr list"
  | Add "expr list"
  | Mul "expr list"
  | Pow_sp expr nat
  | Abs expr
  | re expr
  | im expr
  | exp_sp expr
  | Ynm expr expr expr expr
  | Ynm_expanded expr expr expr expr
  | Znm expr expr expr expr expr
  | PoolSum expr "(expr \<times> int list) list"

subsection \<open>Exact structural replacement: \<^verbatim>\<open>xreplace\<close>\<close>

text \<open>
  \<^verbatim>\<open>Basic.xreplace(rule)\<close>: a node that is a key of the rule is replaced by its value;
  any other node is rebuilt from its replaced arguments.
\<close>

fun xreplace :: "(expr \<rightharpoonup> expr) \<Rightarrow> expr \<Rightarrow> expr" where
  "xreplace rule (Indexed b idx) =
     (case rule (Indexed b idx) of Some v \<Rightarrow> v
      | None \<Rightarrow> Indexed (xreplace rule b) (map (xreplace rule) idx))"
| "xreplace rule (Add xs) =
     (case rule (Add xs) of Some v \<Rightarrow> v | None \<Rightarrow> Add (map (xreplace rule) xs))"
| "xreplace rule (Mul xs) =
     (case rule (Mul xs) of Some v \<Rightarrow> v | None \<Rightarrow> Mul (map (xreplace rule) xs))"
| "xreplace rule (Pow_sp b e) =
     (case rule (Pow_sp b e) of Some v \<Rightarrow> v | None \<Rightarrow> Pow_sp (xreplace rule b) e)"
| "xreplace rule (Abs x) =
     (case rule (Abs x) of Some v \<Rightarrow> v | None \<Rightarrow> Abs (xreplace rule x))"
| "xreplace rule (re x) =
     (case rule (re x) of Some v \<Rightarrow> v | None \<Rightarrow> re (xreplace rule x))"
| "xreplace rule (im x) =
     (case rule (im x) of Some v \<Rightarrow> v | None \<Rightarrow> im (xreplace rule x))"
| "xreplace rule (exp_sp x) =
     (case rule (exp_sp x) of Some v \<Rightarrow> v | None \<Rightarrow> exp_sp (xreplace rule x))"
| "xreplace rule (Ynm n m t p) =
     (case rule (Ynm n m t p) of Some v \<Rightarrow> v
      | None \<Rightarrow> Ynm (xreplace rule n) (xreplace rule m) (xreplace rule t) (xreplace rule p))"
| "xreplace rule (Znm n m t p q) =
     (case rule (Znm n m t p q) of Some v \<Rightarrow> v
      | None \<Rightarrow> Znm (xreplace rule n) (xreplace rule m) (xreplace rule t) (xreplace rule p)
                 (xreplace rule q))"
| "xreplace rule (PoolSum e idx) =
     (case rule (PoolSum e idx) of Some v \<Rightarrow> v
      | None \<Rightarrow> PoolSum (xreplace rule e) (map (\<lambda>sv. (xreplace rule (fst sv), snd sv)) idx))"
| "xreplace rule (Ynm_expanded n m t p) =
     (case rule (Ynm_expanded n m t p) of Some v \<Rightarrow> v
      | None \<Rightarrow> Ynm_expanded (xreplace rule n) (xreplace rule m) (xreplace rule t)
                 (xreplace rule p))"
| "xreplace rule a = (case rule a of Some v \<Rightarrow> v | None \<Rightarrow> a)"

subsection \<open>Unfolding definitions: \<^verbatim>\<open>doit\<close>\<close>

text \<open>
  \<^verbatim>\<open>Znm.evaluate\<close> of the notebook:
  \<^verbatim>\<open>return Ynm(n, m, theta, phi) * sp.exp(-sp.I * Phi)\<close>.
\<close>

definition Znm_evaluate :: "expr \<Rightarrow> expr \<Rightarrow> expr \<Rightarrow> expr \<Rightarrow> expr \<Rightarrow> expr" where
  "Znm_evaluate n m theta phi Phi =
     Mul [Ynm n m theta phi, exp_sp (Mul [Integer (- 1), ImaginaryUnit, Phi])]"

text \<open>
  \<^verbatim>\<open>PoolSum.evaluate\<close> of AmpForm: the sum, over every combination of index values
  (\<^verbatim>\<open>itertools.product\<close>, the last index running fastest), of the summand with each
  index symbol replaced by its value.
\<close>

definition PoolSum_evaluate :: "expr \<Rightarrow> (expr \<times> int list) list \<Rightarrow> expr" where
  "PoolSum_evaluate e idx =
     Add (map (\<lambda>combi. xreplace (map_of (zip (map fst idx) (map Integer combi))) e)
              (product_lists (map snd idx)))"

text \<open>
  The measure under which \<^verbatim>\<open>doit\<close> terminates: a \<open>Znm\<close> outweighs its definition, a
  \<open>PoolSum\<close> outweighs all the copies of its summand.
\<close>

fun weight :: "expr \<Rightarrow> nat" where
  "weight (Indexed b idx) = 1 + weight b + sum_list (map weight idx)"
| "weight (Add xs) = 1 + sum_list (map weight xs)"
| "weight (Mul xs) = 1 + sum_list (map weight xs)"
| "weight (Pow_sp b e) = 1 + weight b"
| "weight (Abs x) = 1 + weight x"
| "weight (re x) = 1 + weight x"
| "weight (im x) = 1 + weight x"
| "weight (exp_sp x) = 1 + weight x"
| "weight (Ynm n m t p) = 1 + weight n + weight m + weight t + weight p"
| "weight (Ynm_expanded n m t p) = 1 + weight n + weight m + weight t + weight p"
| "weight (Znm n m t p q) = 7 + weight n + weight m + weight t + weight p + weight q"
| "weight (PoolSum e idx) = 2 + prod_list (map (\<lambda>sv. length (snd sv)) idx) * weight e"
| "weight a = 1"

lemma weight_pos: "0 < weight e"
  by (cases e) simp_all

lemma weight_xreplace_le:
  assumes "\<And>k v. rule k = Some v \<Longrightarrow> weight v = 1"
  shows "weight (xreplace rule e) \<le> weight e"
  using assms
proof (induction rule e rule: xreplace.induct)
  case (1 rule b idx)
  show ?case
  proof (cases "rule (Indexed b idx)")
    case None
    have "sum_list (map (weight \<circ> xreplace rule) idx) \<le> sum_list (map weight idx)"
      by (rule sum_list_mono) (use 1 None in auto)
    moreover have "weight (xreplace rule b) \<le> weight b"
      using 1 None by simp
    ultimately show ?thesis
      using None by (simp add: comp_def)
  next
    case (Some v)
    then show ?thesis
      using 1(3) [OF Some] by (simp add: weight_pos Suc_le_eq)
  qed
next
  case (2 rule xs)
  show ?case
  proof (cases "rule (Add xs)")
    case None
    have "sum_list (map (weight \<circ> xreplace rule) xs) \<le> sum_list (map weight xs)"
      by (rule sum_list_mono) (use 2 None in auto)
    then show ?thesis
      using None by (simp add: comp_def)
  next
    case (Some v)
    then show ?thesis
      using 2(2) [OF Some] by (simp add: weight_pos Suc_le_eq)
  qed
next
  case (3 rule xs)
  show ?case
  proof (cases "rule (Mul xs)")
    case None
    have "sum_list (map (weight \<circ> xreplace rule) xs) \<le> sum_list (map weight xs)"
      by (rule sum_list_mono) (use 3 None in auto)
    then show ?thesis
      using None by (simp add: comp_def)
  next
    case (Some v)
    then show ?thesis
      using 3(2) [OF Some] by (simp add: weight_pos Suc_le_eq)
  qed
next
  case (4 rule b e)
  show ?case
  proof (cases "rule (Pow_sp b e)")
    case None
    with 4 show ?thesis by simp
  next
    case (Some v)
    then show ?thesis
      using 4(2) [OF Some] by (simp add: weight_pos Suc_le_eq)
  qed
next
  case (5 rule x)
  show ?case
  proof (cases "rule (Abs x)")
    case None
    with 5 show ?thesis by simp
  next
    case (Some v)
    then show ?thesis
      using 5(2) [OF Some] by (simp add: weight_pos Suc_le_eq)
  qed
next
  case (6 rule x)
  show ?case
  proof (cases "rule (re x)")
    case None
    with 6 show ?thesis by simp
  next
    case (Some v)
    then show ?thesis
      using 6(2) [OF Some] by (simp add: weight_pos Suc_le_eq)
  qed
next
  case (7 rule x)
  show ?case
  proof (cases "rule (im x)")
    case None
    with 7 show ?thesis by simp
  next
    case (Some v)
    then show ?thesis
      using 7(2) [OF Some] by (simp add: weight_pos Suc_le_eq)
  qed
next
  case (8 rule x)
  show ?case
  proof (cases "rule (exp_sp x)")
    case None
    with 8 show ?thesis by simp
  next
    case (Some v)
    then show ?thesis
      using 8(2) [OF Some] by (simp add: weight_pos Suc_le_eq)
  qed
next
  case (9 rule n m t p)
  show ?case
  proof (cases "rule (Ynm n m t p)")
    case None
    with 9 show ?thesis by (simp add: add_mono)
  next
    case (Some v)
    then show ?thesis
      using 9(5) [OF Some] by (simp add: weight_pos Suc_le_eq)
  qed
next
  case (10 rule n m t p q)
  show ?case
  proof (cases "rule (Znm n m t p q)")
    case None
    with 10 show ?thesis by (simp add: add_mono)
  next
    case (Some v)
    then show ?thesis
      using 10(6) [OF Some] by (simp add: weight_pos Suc_le_eq)
  qed
next
  case (11 rule e idx)
  show ?case
  proof (cases "rule (PoolSum e idx)")
    case None
    with 11 show ?thesis by (simp add: comp_def)
  next
    case (Some v)
    then show ?thesis
      using 11(3) [OF Some] by (simp add: weight_pos Suc_le_eq)
  qed
next
  case (12 rule n m t p)
  show ?case
  proof (cases "rule (Ynm_expanded n m t p)")
    case None
    with 12 show ?thesis by (simp add: add_mono)
  next
    case (Some v)
    then show ?thesis
      using 12(5) [OF Some] by (simp add: weight_pos Suc_le_eq)
  qed
qed (auto split: option.splits)

lemma length_product_lists: "length (product_lists xss) = prod_list (map length xss)"
  by (induction xss) (simp_all add: length_concat comp_def sum_list_triv)

lemma sum_list_le_length_mult:
  "(\<And>x. x \<in> set xs \<Longrightarrow> f x \<le> (c::nat)) \<Longrightarrow> sum_list (map f xs) \<le> length xs * c"
  by (induction xs) (simp_all add: add_mono)

lemma weight_PoolSum_evaluate: "weight (PoolSum_evaluate e idx) < weight (PoolSum e idx)"
proof -
  let ?f = "\<lambda>combi. xreplace (map_of (zip (map fst idx) (map Integer combi))) e"
  have "weight (?f combi) \<le> weight e" for combi
  proof (rule weight_xreplace_le)
    fix k v
    assume "map_of (zip (map fst idx) (map Integer combi)) k = Some v"
    then have "v \<in> set (map Integer combi)"
      by (meson map_of_SomeD set_zip_rightD)
    then show "weight v = 1" by auto
  qed
  then have "sum_list (map (\<lambda>c. weight (?f c)) (product_lists (map snd idx)))
      \<le> length (product_lists (map snd idx)) * weight e"
    by (intro sum_list_le_length_mult) simp
  then show ?thesis
    by (simp add: PoolSum_evaluate_def comp_def length_product_lists)
qed

lemma weight_Znm_evaluate: "weight (Znm_evaluate n m t p q) < weight (Znm n m t p q)"
  by (simp add: Znm_evaluate_def)

lemma weight_member: "x \<in> set xs \<Longrightarrow> weight x \<le> sum_list (map weight xs)"
  by (induction xs) auto

text \<open>
  \<^verbatim>\<open>doit()\<close>. For \<open>Znm\<close> and \<open>PoolSum\<close> it is the method that AmpForm's
  \<^verbatim>\<open>implement_doit_method\<close> installs: \<^verbatim>\<open>self.evaluate().doit()\<close>. For every other node
  it is SymPy's \<^verbatim>\<open>Basic.doit\<close>: the node rebuilt from the \<^verbatim>\<open>doit\<close> of its arguments.
\<close>

function doit :: "expr \<Rightarrow> expr" where
  "doit (Znm n m t p q) = doit (Znm_evaluate n m t p q)"
| "doit (PoolSum e idx) = doit (PoolSum_evaluate e idx)"
| "doit (Indexed b idx) = Indexed (doit b) (map doit idx)"
| "doit (Add xs) = Add (map doit xs)"
| "doit (Mul xs) = Mul (map doit xs)"
| "doit (Pow_sp b e) = Pow_sp (doit b) e"
| "doit (Abs x) = Abs (doit x)"
| "doit (re x) = re (doit x)"
| "doit (im x) = im (doit x)"
| "doit (exp_sp x) = exp_sp (doit x)"
| "doit (Ynm n m t p) = Ynm (doit n) (doit m) (doit t) (doit p)"
| "doit (Ynm_expanded n m t p) = Ynm_expanded (doit n) (doit m) (doit t) (doit p)"
| "doit (Integer i) = Integer i"
| "doit Pi = Pi"
| "doit ImaginaryUnit = ImaginaryUnit"
| "doit (Num c) = Num c"
| "doit (Symbol s) = Symbol s"
| "doit (IndexedBase s) = IndexedBase s"
  by pat_completeness auto
termination
proof (relation "measure weight")
  show "wf (measure weight)" by simp
next
  fix n m t p q
  show "(Znm_evaluate n m t p q, Znm n m t p q) \<in> measure weight"
    using weight_Znm_evaluate [of n m t p q] by simp
next
  fix e idx
  show "(PoolSum_evaluate e idx, PoolSum e idx) \<in> measure weight"
    using weight_PoolSum_evaluate [of e idx] by simp
qed (auto simp: less_Suc_eq_le weight_member intro: le_trans [OF weight_member])

section \<open>The notebook's symbols and the intensity\<close>

text \<open>
  \<^verbatim>\<open>k, l, m = sp.symbols("k l m")\<close>,
  \<^verbatim>\<open>phi, theta, Phi = sp.symbols("phi theta Phi", real=True)\<close>,
  \<^verbatim>\<open>kappa = sp.Symbol("kappa")\<close>, \<^verbatim>\<open>Py = sp.Symbol("P_gamma")\<close>. The Python variables
  \<^verbatim>\<open>k\<close>, \<^verbatim>\<open>l\<close>, \<^verbatim>\<open>m\<close>, \<^verbatim>\<open>phi\<close>, \<^verbatim>\<open>theta\<close>, \<^verbatim>\<open>Phi\<close> are called \<open>sym_k\<close>, ... here, so that
  the short names stay free for bound variables. No two symbols of the notebook share a
  name, so a symbol is identified by its name.
\<close>

definition sym_k :: expr where "sym_k = Symbol ''k''"
definition sym_l :: expr where "sym_l = Symbol ''l''"
definition sym_m :: expr where "sym_m = Symbol ''m''"
definition sym_phi :: expr where "sym_phi = Symbol ''phi''"
definition sym_theta :: expr where "sym_theta = Symbol ''theta''"
definition sym_Phi :: expr where "sym_Phi = Symbol ''Phi''"
definition kappa :: expr where "kappa = Symbol ''kappa''"
definition Py :: expr where "Py = Symbol ''P_gamma''"

text \<open>\<^verbatim>\<open>znm = Znm(l, m, theta, phi, Phi)\<close>\<close>

definition znm :: expr where
  "znm = Znm sym_l sym_m sym_theta sym_phi sym_Phi"

text \<open>
  \<^verbatim>\<open>lp = sp.IndexedBase("[l]^{(+)}", complex=True)\<close> and
  \<^verbatim>\<open>lm = sp.IndexedBase("[l]^{(-)}", complex=True)\<close>
\<close>

definition lp :: expr where "lp = IndexedBase ''[l]^{(+)}''"
definition lm :: expr where "lm = IndexedBase ''[l]^{(-)}''"

text \<open>
  \<^verbatim>\<open>create_range(min_, max_)\<close>: the integers from \<^verbatim>\<open>min_\<close> (here \<open>lo\<close>) to \<^verbatim>\<open>max_\<close>
  (here \<open>hi\<close>), both included
  (\<^verbatim>\<open>arange(min_, max_ + 1)\<close> steps by one and stops before \<^verbatim>\<open>max_ + 1\<close>).
\<close>

definition create_range :: "int \<Rightarrow> int \<Rightarrow> int list" where
  "create_range lo hi = [lo..hi]"

text \<open>
  The cell that builds \<^verbatim>\<open>intensity_expr\<close> reads the globals \<^verbatim>\<open>max_l\<close>, \<^verbatim>\<open>k_values\<close> and
  \<^verbatim>\<open>m_range\<close>; they are the parameters of \<open>intensity_expr_of\<close>. The range of \<^verbatim>\<open>l\<close> is
  \<^verbatim>\<open>l_range = [max_l]  # create_range(0, max_l)\<close>.
\<close>

definition l_range_of :: "int \<Rightarrow> int list" where
  "l_range_of max_l = [max_l]"

definition intensity_expr_of :: "int \<Rightarrow> int list \<Rightarrow> int list \<Rightarrow> expr" where
  "intensity_expr_of max_l k_values m_range =
     Mul [Integer 2, kappa,
       PoolSum
         (Add [
            Mul [Add [Integer 1, Mul [Integer (- 1), Py]],
                 Pow_sp (Abs (PoolSum (Mul [Indexed lm [sym_m, sym_k], re znm])
                                [(sym_l, l_range_of max_l), (sym_m, m_range)])) 2],
            Mul [Add [Integer 1, Mul [Integer (- 1), Py]],
                 Pow_sp (Abs (PoolSum (Mul [Indexed lp [sym_m, sym_k], im znm])
                                [(sym_l, l_range_of max_l), (sym_m, m_range)])) 2],
            Mul [Add [Integer 1, Py],
                 Pow_sp (Abs (PoolSum (Mul [Indexed lp [sym_m, sym_k], re znm])
                                [(sym_l, l_range_of max_l), (sym_m, m_range)])) 2],
            Mul [Add [Integer 1, Py],
                 Pow_sp (Abs (PoolSum (Mul [Indexed lm [sym_m, sym_k], im znm])
                                [(sym_l, l_range_of max_l), (sym_m, m_range)])) 2]])
         [(sym_k, k_values)]]"

text \<open>The values the notebook gives them.\<close>

definition max_l :: int where "max_l = 2"
definition k_values :: "int list" where "k_values = [0]"
definition l_range :: "int list" where "l_range = l_range_of max_l"
definition m_range :: "int list" where "m_range = create_range (- max_l) max_l"

definition intensity_expr :: expr where
  "intensity_expr = intensity_expr_of max_l k_values m_range"

subsection \<open>Queries on a tree\<close>

text \<open>
  The number of squared-magnitude nodes \<^verbatim>\<open>Abs(...)**2\<close> in a tree, and the degrees (first
  arguments) of the spherical harmonics in it.
\<close>

fun is_Abs :: "expr \<Rightarrow> bool" where
  "is_Abs (Abs x) = True"
| "is_Abs e = False"

fun count_abs_sq :: "expr \<Rightarrow> nat" where
  "count_abs_sq (Indexed b idx) = count_abs_sq b + sum_list (map count_abs_sq idx)"
| "count_abs_sq (Add xs) = sum_list (map count_abs_sq xs)"
| "count_abs_sq (Mul xs) = sum_list (map count_abs_sq xs)"
| "count_abs_sq (Pow_sp b e) =
     (if is_Abs b \<and> e = 2 then 1 else 0) + count_abs_sq b"
| "count_abs_sq (Abs x) = count_abs_sq x"
| "count_abs_sq (re x) = count_abs_sq x"
| "count_abs_sq (im x) = count_abs_sq x"
| "count_abs_sq (exp_sp x) = count_abs_sq x"
| "count_abs_sq (Ynm n m t p) =
     count_abs_sq n + count_abs_sq m + count_abs_sq t + count_abs_sq p"
| "count_abs_sq (Ynm_expanded n m t p) =
     count_abs_sq n + count_abs_sq m + count_abs_sq t + count_abs_sq p"
| "count_abs_sq (Znm n m t p q) =
     count_abs_sq n + count_abs_sq m + count_abs_sq t + count_abs_sq p + count_abs_sq q"
| "count_abs_sq (PoolSum e idx) = count_abs_sq e"
| "count_abs_sq a = 0"

fun Ynm_degrees :: "expr \<Rightarrow> expr list" where
  "Ynm_degrees (Indexed b idx) = Ynm_degrees b @ concat (map Ynm_degrees idx)"
| "Ynm_degrees (Add xs) = concat (map Ynm_degrees xs)"
| "Ynm_degrees (Mul xs) = concat (map Ynm_degrees xs)"
| "Ynm_degrees (Pow_sp b e) = Ynm_degrees b"
| "Ynm_degrees (Abs x) = Ynm_degrees x"
| "Ynm_degrees (re x) = Ynm_degrees x"
| "Ynm_degrees (im x) = Ynm_degrees x"
| "Ynm_degrees (exp_sp x) = Ynm_degrees x"
| "Ynm_degrees (Ynm n m t p) =
     n # Ynm_degrees n @ Ynm_degrees m @ Ynm_degrees t @ Ynm_degrees p"
| "Ynm_degrees (Ynm_expanded n m t p) =
     Ynm_degrees n @ Ynm_degrees m @ Ynm_degrees t @ Ynm_degrees p"
| "Ynm_degrees (Znm n m t p q) =
     Ynm_degrees n @ Ynm_degrees m @ Ynm_degrees t @ Ynm_degrees p @ Ynm_degrees q"
| "Ynm_degrees (PoolSum e idx) = Ynm_degrees e"
| "Ynm_degrees a = []"

text \<open>
  Free of unevaluated nodes: the tree has no node of the two classes whose \<^verbatim>\<open>doit\<close>
  unfolds a definition, \<open>Znm\<close> and \<open>PoolSum\<close>. This is what \<^verbatim>\<open>doit\<close> leaves, and no more
  than that: such a tree may still hold \<open>Ynm\<close> nodes, which \<^verbatim>\<open>doit\<close> keeps and only
  \<^verbatim>\<open>expand(func=True)\<close> rewrites.
\<close>

fun unevaluated_free :: "expr \<Rightarrow> bool" where
  "unevaluated_free (Znm n m t p q) = False"
| "unevaluated_free (PoolSum e idx) = False"
| "unevaluated_free (Indexed b idx) = (unevaluated_free b \<and> list_all unevaluated_free idx)"
| "unevaluated_free (Add xs) = list_all unevaluated_free xs"
| "unevaluated_free (Mul xs) = list_all unevaluated_free xs"
| "unevaluated_free (Pow_sp b e) = unevaluated_free b"
| "unevaluated_free (Abs x) = unevaluated_free x"
| "unevaluated_free (re x) = unevaluated_free x"
| "unevaluated_free (im x) = unevaluated_free x"
| "unevaluated_free (exp_sp x) = unevaluated_free x"
| "unevaluated_free (Ynm n m t p) =
     (unevaluated_free n \<and> unevaluated_free m \<and> unevaluated_free t \<and> unevaluated_free p)"
| "unevaluated_free (Ynm_expanded n m t p) =
     (unevaluated_free n \<and> unevaluated_free m \<and> unevaluated_free t \<and> unevaluated_free p)"
| "unevaluated_free a = True"

section \<open>The value of an expression\<close>

text \<open>
  The number an expression stands for, given a value for each of its symbols. \<open>env\<close>
  gives the value of every \<open>Symbol\<close> and of every \<open>Indexed\<close> coefficient (an \<open>Indexed\<close>
  is one scalar unknown, identified by its base and indices). SymPy's spherical harmonic
  is a library function; its value is the parameter \<open>Y\<close>, so that every result below
  holds whatever \<^verbatim>\<open>Ynm\<close> computes; the expanded formula of a harmonic has the value
  of the harmonic. The unevaluated nodes have the value of their definition
  (\<^verbatim>\<open>evaluate()\<close>). Values are exact complex numbers: rounding of floating point
  arithmetic is not modelled.
\<close>

type_synonym harmonic = "complex \<Rightarrow> complex \<Rightarrow> complex \<Rightarrow> complex \<Rightarrow> complex"

function eval :: "harmonic \<Rightarrow> (expr \<Rightarrow> complex) \<Rightarrow> expr \<Rightarrow> complex" where
  "eval Y env (Integer i) = of_int i"
| "eval Y env Pi = of_real pi"
| "eval Y env ImaginaryUnit = \<i>"
| "eval Y env (Num c) = c"
| "eval Y env (Symbol s) = env (Symbol s)"
| "eval Y env (IndexedBase s) = env (IndexedBase s)"
| "eval Y env (Indexed b idx) = env (Indexed b idx)"
| "eval Y env (Add xs) = sum_list (map (eval Y env) xs)"
| "eval Y env (Mul xs) = prod_list (map (eval Y env) xs)"
| "eval Y env (Pow_sp b n) = eval Y env b ^ n"
| "eval Y env (Abs x) = of_real (cmod (eval Y env x))"
| "eval Y env (re x) = of_real (Re (eval Y env x))"
| "eval Y env (im x) = of_real (Im (eval Y env x))"
| "eval Y env (exp_sp x) = exp (eval Y env x)"
| "eval Y env (Ynm n m t p) = Y (eval Y env n) (eval Y env m) (eval Y env t) (eval Y env p)"
| "eval Y env (Ynm_expanded n m t p) =
     Y (eval Y env n) (eval Y env m) (eval Y env t) (eval Y env p)"
| "eval Y env (Znm n m t p q) = eval Y env (Znm_evaluate n m t p q)"
| "eval Y env (PoolSum e idx) = eval Y env (PoolSum_evaluate e idx)"
  by pat_completeness auto
termination
proof (relation "measure (\<lambda>(Y, env, e). weight e)")
  show "wf (measure (\<lambda>(Y, env, e). weight e))" by simp
next
  fix Y :: harmonic and env :: "expr \<Rightarrow> complex" and n m t p q
  show "((Y, env, Znm_evaluate n m t p q), (Y, env, Znm n m t p q))
      \<in> measure (\<lambda>(Y, env, e). weight e)"
    using weight_Znm_evaluate [of n m t p q] by simp
next
  fix Y :: harmonic and env :: "expr \<Rightarrow> complex" and e idx
  show "((Y, env, PoolSum_evaluate e idx), (Y, env, PoolSum e idx))
      \<in> measure (\<lambda>(Y, env, e). weight e)"
    using weight_PoolSum_evaluate [of e idx] by simp
qed (auto simp: less_Suc_eq_le weight_member intro: le_trans [OF weight_member])

text \<open>
  The closed forms of the five spherical harmonics of degree 2 (with the Condon-Shortley
  phase, as SymPy has them), the only degree in the notebook's expression. They stand for
  \<open>Y\<close> wherever a concrete scenario is evaluated.
\<close>

definition Ynm_degree_2 :: harmonic where
  "Ynm_degree_2 n m t p =
     (if n = 2 \<and> m = 0 then of_real (sqrt (5 / pi) / 4) * (3 * cos t ^ 2 - 1)
      else if n = 2 \<and> m = 1 then
        - of_real (sqrt (15 / (2 * pi)) / 2) * sin t * cos t * exp (\<i> * p)
      else if n = 2 \<and> m = - 1 then
        of_real (sqrt (15 / (2 * pi)) / 2) * sin t * cos t * exp (- \<i> * p)
      else if n = 2 \<and> m = 2 then
        of_real (sqrt (15 / (2 * pi)) / 4) * sin t ^ 2 * exp (2 * \<i> * p)
      else if n = 2 \<and> m = - 2 then
        of_real (sqrt (15 / (2 * pi)) / 4) * sin t ^ 2 * exp (- 2 * \<i> * p)
      else 0)"

section \<open>Free symbols and the argument list\<close>

subsection \<open>Printing\<close>

text \<open>
  \<^verbatim>\<open>str\<close> of the nodes that the notebook sorts and names: a symbol prints as its name,
  an integer in decimal, and \<^verbatim>\<open>Indexed._sympystr\<close> prints \<^verbatim>\<open>base[i, j]\<close>. Other nodes are
  never printed by the notebook's code; the model gives them the empty string.
\<close>

definition digit_char :: "nat \<Rightarrow> char" where
  "digit_char d = ''0123456789'' ! d"

fun str_nat :: "nat \<Rightarrow> string" where
  "str_nat n =
     (if n < 10 then [digit_char n] else str_nat (n div 10) @ [digit_char (n mod 10)])"

definition str_int :: "int \<Rightarrow> string" where
  "str_int i = (if i < 0 then CHR ''-'' # str_nat (nat (- i)) else str_nat (nat i))"

text \<open>\<^verbatim>\<open>sep.join(xs)\<close>\<close>

definition join :: "string \<Rightarrow> string list \<Rightarrow> string" where
  "join sep xs = (case xs of [] \<Rightarrow> [] | x # ys \<Rightarrow> x @ concat (map (\<lambda>y. sep @ y) ys))"

fun str :: "expr \<Rightarrow> string" where
  "str (Integer i) = str_int i"
| "str (Symbol s) = s"
| "str (IndexedBase s) = s"
| "str (Indexed b idx) = str b @ ''['' @ join '', '' (map str idx) @ '']''"
| "str Pi = ''pi''"
| "str ImaginaryUnit = ''I''"
| "str e = []"

text \<open>\<^verbatim>\<open>Indexed.name\<close> is \<^verbatim>\<open>str(self)\<close>.\<close>

definition name :: "expr \<Rightarrow> string" where
  "name s = str s"

subsection \<open>\<^verbatim>\<open>free_symbols\<close>\<close>

text \<open>
  SymPy's property \<^verbatim>\<open>expr.free_symbols\<close>, a set, as a list without repetition. An
  \<open>Indexed\<close> contributes itself, its base and the free symbols of its indices
  (\<^verbatim>\<open>Indexed.free_symbols\<close>); a \<open>PoolSum\<close> hides its index symbols.
\<close>

fun free_symbols_list :: "expr \<Rightarrow> expr list" where
  "free_symbols_list (Symbol s) = [Symbol s]"
| "free_symbols_list (IndexedBase s) = [IndexedBase s]"
| "free_symbols_list (Indexed b idx) =
     (let base_free_symbols = free_symbols_list b;
          indices_free_symbols = concat (map free_symbols_list idx)
      in if base_free_symbols \<noteq> []
         then Indexed b idx # base_free_symbols @ indices_free_symbols
         else indices_free_symbols)"
| "free_symbols_list (Add xs) = concat (map free_symbols_list xs)"
| "free_symbols_list (Mul xs) = concat (map free_symbols_list xs)"
| "free_symbols_list (Pow_sp b n) = free_symbols_list b"
| "free_symbols_list (Abs x) = free_symbols_list x"
| "free_symbols_list (re x) = free_symbols_list x"
| "free_symbols_list (im x) = free_symbols_list x"
| "free_symbols_list (exp_sp x) = free_symbols_list x"
| "free_symbols_list (Ynm n m t p) =
     free_symbols_list n @ free_symbols_list m @ free_symbols_list t @ free_symbols_list p"
| "free_symbols_list (Ynm_expanded n m t p) =
     free_symbols_list n @ free_symbols_list m @ free_symbols_list t @ free_symbols_list p"
| "free_symbols_list (Znm n m t p q) =
     free_symbols_list n @ free_symbols_list m @ free_symbols_list t @ free_symbols_list p
     @ free_symbols_list q"
| "free_symbols_list (PoolSum e idx) =
     filter (\<lambda>s. s \<notin> set (map fst idx))
       (free_symbols_list e @ concat (map (\<lambda>sv. free_symbols_list (fst sv)) idx))"
| "free_symbols_list a = []"

definition free_symbols_of :: "expr \<Rightarrow> expr list" where
  "free_symbols_of e = remdups (free_symbols_list e)"

text \<open>\<^verbatim>\<open>isinstance(s, sp.Indexed)\<close>\<close>

fun isinstance_Indexed :: "expr \<Rightarrow> bool" where
  "isinstance_Indexed (Indexed b idx) = True"
| "isinstance_Indexed e = False"

subsection \<open>The lambdification cell\<close>

text \<open>
  \<^verbatim>\<open>free_symbols = sorted(intensity_expr.doit().free_symbols, key=str)\<close>: Python compares
  strings by code point, which is the lexicographic order on \<open>string\<close>.

  \<^verbatim>\<open>amp_symbols = [s for s in free_symbols if isinstance(s, sp.Indexed)]\<close>

  \<^verbatim>\<open>arguments = (theta, phi, Phi, Py, *amp_symbols)\<close>

  \<^verbatim>\<open>plotted_expr = intensity_expr.doit().xreplace({kappa: sp.pi}).expand(func=True)\<close>
\<close>

definition free_symbols :: "expr list" where
  "free_symbols = sort_key str (free_symbols_of (doit intensity_expr))"

definition amp_symbols :: "expr list" where
  "amp_symbols = filter isinstance_Indexed free_symbols"

definition arguments :: "expr list" where
  "arguments = [sym_theta, sym_phi, sym_Phi, Py] @ amp_symbols"

text \<open>
  \<^verbatim>\<open>expand(func=True)\<close> rewrites every \<^verbatim>\<open>Ynm\<close> of the tree as its formula in elementary
  functions (\<^verbatim>\<open>Ynm._eval_expand_func\<close>). It also multiplies out products and powers, the
  default of \<^verbatim>\<open>expand\<close>; that rearrangement changes neither the value nor the symbols
  of the tree and is not modelled.
\<close>

fun expand_func :: "expr \<Rightarrow> expr" where
  "expand_func (Ynm n m t p) =
     Ynm_expanded (expand_func n) (expand_func m) (expand_func t) (expand_func p)"
| "expand_func (Ynm_expanded n m t p) =
     Ynm_expanded (expand_func n) (expand_func m) (expand_func t) (expand_func p)"
| "expand_func (Indexed b idx) = Indexed (expand_func b) (map expand_func idx)"
| "expand_func (Add xs) = Add (map expand_func xs)"
| "expand_func (Mul xs) = Mul (map expand_func xs)"
| "expand_func (Pow_sp b n) = Pow_sp (expand_func b) n"
| "expand_func (Abs x) = Abs (expand_func x)"
| "expand_func (re x) = re (expand_func x)"
| "expand_func (im x) = im (expand_func x)"
| "expand_func (exp_sp x) = exp_sp (expand_func x)"
| "expand_func (Znm n m t p q) =
     Znm (expand_func n) (expand_func m) (expand_func t) (expand_func p) (expand_func q)"
| "expand_func (PoolSum e idx) = PoolSum (expand_func e) idx"
| "expand_func a = a"

definition plotted_expr :: expr where
  "plotted_expr = expand_func (xreplace [kappa \<mapsto> Pi] (doit intensity_expr))"

section \<open>The numeric compiler: \<^verbatim>\<open>lambdify\<close>\<close>

text \<open>
  \<^verbatim>\<open>sp.lambdify(args, expr, "numpy", cse=True)\<close> prints \<^verbatim>\<open>expr\<close> as the body of a Python
  function whose parameters stand for \<^verbatim>\<open>args\<close>, compiles that source and returns the
  function. The notebook only calls it; what it does is SymPy's:

  \<^item> Every occurrence of an argument becomes a parameter (an argument whose name is no
    identifier, such as an \<open>Indexed\<close>, gets a fresh parameter name).
  \<^item> Nothing compares the symbols of the tree with the arguments. A symbol that is not
    an argument is printed by its name, and \<^verbatim>\<open>lambdify\<close> puts every symbol of the tree
    into the namespace of the function, so the name stands for the SymPy symbol itself.
  \<^item> A function of the tree that numpy does not have, such as \<^verbatim>\<open>Ynm\<close>, is printed by its
    name as well; the name is looked up when the function runs.

  A call therefore has one of these outcomes: a number of numpy; a Python exception;
  or, without any exception, an object of SymPy, which SymPy's operators build from the
  symbols that no argument binds (\<open>Symbolic_result\<close>). The type \<open>no_number\<close> lists the
  outcomes other than a number of numpy. Its last value marks what the model leaves
  open: source that Python may refuse to compile, and calls in which a numpy function
  meets a SymPy object.
\<close>

datatype no_number = NameError | TypeError | KeyError | Symbolic_result | Not_modelled

text \<open>
  \<^verbatim>\<open>str.isidentifier\<close>, over ASCII letters, digits and the underscore. A Python keyword
  is an identifier in this sense; the printer appends an underscore to it.
\<close>

definition is_ident_start :: "char \<Rightarrow> bool" where
  "is_ident_start c =
     ((CHR ''a'' \<le> c \<and> c \<le> CHR ''z'') \<or> (CHR ''A'' \<le> c \<and> c \<le> CHR ''Z'') \<or> c = CHR ''_'')"

definition is_digit :: "char \<Rightarrow> bool" where
  "is_digit c = (CHR ''0'' \<le> c \<and> c \<le> CHR ''9'')"

definition is_ident_char :: "char \<Rightarrow> bool" where
  "is_ident_char c = (is_ident_start c \<or> is_digit c)"

definition isidentifier :: "string \<Rightarrow> bool" where
  "isidentifier s =
     (case s of [] \<Rightarrow> False | c # cs \<Rightarrow> is_ident_start c \<and> list_all is_ident_char cs)"

text \<open>The names in the generated body that no parameter binds, in the order of the tree.\<close>

fun unbound_names :: "expr list \<Rightarrow> expr \<Rightarrow> string list" where
  "unbound_names args (Symbol s) = (if Symbol s \<in> set args then [] else [s])"
| "unbound_names args (IndexedBase s) = (if IndexedBase s \<in> set args then [] else [s])"
| "unbound_names args (Indexed b idx) =
     (if Indexed b idx \<in> set args then []
      else str b # concat (map (unbound_names args) idx))"
| "unbound_names args (Add xs) = concat (map (unbound_names args) xs)"
| "unbound_names args (Mul xs) = concat (map (unbound_names args) xs)"
| "unbound_names args (Pow_sp b n) = unbound_names args b"
| "unbound_names args (Abs x) = unbound_names args x"
| "unbound_names args (re x) = unbound_names args x"
| "unbound_names args (im x) = unbound_names args x"
| "unbound_names args (exp_sp x) = unbound_names args x"
| "unbound_names args (Ynm n m t p) =
     unbound_names args n @ unbound_names args m @ unbound_names args t
     @ unbound_names args p"
| "unbound_names args (Ynm_expanded n m t p) =
     unbound_names args n @ unbound_names args m @ unbound_names args t
     @ unbound_names args p"
| "unbound_names args (Znm n m t p q) =
     unbound_names args n @ unbound_names args m @ unbound_names args t
     @ unbound_names args p @ unbound_names args q"
| "unbound_names args (PoolSum e idx) = unbound_names args e"
| "unbound_names args a = []"

text \<open>A scalar symbol: what the notebook passes as an argument.\<close>

fun is_scalar_symbol :: "expr \<Rightarrow> bool" where
  "is_scalar_symbol (Symbol s) = True"
| "is_scalar_symbol (Indexed b idx) = True"
| "is_scalar_symbol e = False"

subsection \<open>What a call meets\<close>

text \<open>
  The generated body, evaluated by Python with numpy, is classified by what its
  evaluation meets:

  \<^item> \<open>Numeric\<close>: numbers, arguments, and numpy's arithmetic and functions of them. The
    expanded formula of a harmonic is numeric when its degree and order are integers
    \<open>n \<ge> 0\<close> and \<open>|m| \<le> n\<close> (for other degrees and orders SymPy has no formula in
    elementary functions).
  \<^item> \<open>Symbolic\<close>: a symbol that no argument binds is met by \<^verbatim>\<open>+\<close>, \<^verbatim>\<open>*\<close> and \<^verbatim>\<open>**\<close> only.
    SymPy's operators take over and the result is an object of SymPy.
  \<^item> \<open>Unknown_function\<close>: the body calls \<^verbatim>\<open>Ynm\<close>, which the namespace does not have:
    \<^verbatim>\<open>NameError\<close>. Python evaluates the operands of \<^verbatim>\<open>+\<close> and \<^verbatim>\<open>*\<close> before it applies
    them, so the exception wins over a symbolic operand.
  \<^item> \<open>Outside\<close>: everything else, in particular a numpy function applied to a SymPy
    object, an \<open>Indexed\<close> that is no argument, and a node that \<^verbatim>\<open>doit\<close> has not unfolded.
\<close>

datatype kind = Numeric | Symbolic | Unknown_function | Outside

fun rank :: "kind \<Rightarrow> nat" where
  "rank Numeric = 0"
| "rank Symbolic = 1"
| "rank Unknown_function = 2"
| "rank Outside = 3"

definition worse :: "kind \<Rightarrow> kind \<Rightarrow> kind" where
  "worse a b = (if rank a \<le> rank b then b else a)"

definition worst :: "kind list \<Rightarrow> kind" where
  "worst ks = foldr worse ks Numeric"

definition under_function :: "kind \<Rightarrow> kind" where
  "under_function k = (if k = Symbolic then Outside else k)"

fun classify :: "expr list \<Rightarrow> expr \<Rightarrow> kind" where
  "classify args (Symbol s) = (if Symbol s \<in> set args then Numeric else Symbolic)"
| "classify args (IndexedBase s) = Outside"
| "classify args (Indexed b idx) = (if Indexed b idx \<in> set args then Numeric else Outside)"
| "classify args (Add xs) = worst (map (classify args) xs)"
| "classify args (Mul xs) = worst (map (classify args) xs)"
| "classify args (Pow_sp b n) = classify args b"
| "classify args (Abs x) = under_function (classify args x)"
| "classify args (re x) = under_function (classify args x)"
| "classify args (im x) = under_function (classify args x)"
| "classify args (exp_sp x) = under_function (classify args x)"
| "classify args (Ynm n m t p) =
     worse Unknown_function
       (worst [classify args n, classify args m, classify args t, classify args p])"
| "classify args (Ynm_expanded n m t p) =
     (case (n, m) of
        (Integer i, Integer j) \<Rightarrow>
          if 0 \<le> i \<and> \<bar>j\<bar> \<le> i
          then under_function (worst [classify args t, classify args p])
          else Outside
      | _ \<Rightarrow> Outside)"
| "classify args (Znm n m t p q) = Outside"
| "classify args (PoolSum e idx) = Outside"
| "classify args a = Numeric"

text \<open>
  A symbol whose name the generated source uses for itself changes the meaning of that
  name: \<^verbatim>\<open>numpy\<close> and the printed names of its functions and constants, \<^verbatim>\<open>Ynm\<close>, the
  temporaries \<^verbatim>\<open>x0\<close>, \<^verbatim>\<open>x1\<close>, ... of the common-subexpression step (\<^verbatim>\<open>cse=True\<close>), and
  the names with a leading underscore that \<^verbatim>\<open>lambdify\<close> makes up. A symbol whose name is a
  Python keyword (\<^verbatim>\<open>keyword.kwlist\<close>) is printed under another name. Calls of a function
  whose tree or arguments have such a symbol are left open.
\<close>

definition source_names :: "string list" where
  "source_names =
     [''numpy'', ''abs'', ''real'', ''imag'', ''exp'', ''pi'', ''sqrt'', ''sin'', ''cos'',
      ''Ynm'']"

definition kwlist :: "string list" where
  "kwlist =
     [''False'', ''None'', ''True'', ''and'', ''as'', ''assert'', ''async'', ''await'',
      ''break'', ''class'', ''continue'', ''def'', ''del'', ''elif'', ''else'', ''except'',
      ''finally'', ''for'', ''from'', ''global'', ''if'', ''import'', ''in'', ''is'',
      ''lambda'', ''nonlocal'', ''not'', ''or'', ''pass'', ''raise'', ''return'', ''try'',
      ''while'', ''with'', ''yield'']"

definition is_cse_name :: "string \<Rightarrow> bool" where
  "is_cse_name s =
     (case s of [] \<Rightarrow> False | c # ds \<Rightarrow> c = CHR ''x'' \<and> ds \<noteq> [] \<and> list_all is_digit ds)"

definition clashes :: "string \<Rightarrow> bool" where
  "clashes s =
     (s \<in> set source_names \<or> s \<in> set kwlist \<or> is_cse_name s \<or> take 1 s = ''_'')"

fun symbol_names :: "expr \<Rightarrow> string list" where
  "symbol_names (Symbol s) = [s]"
| "symbol_names (IndexedBase s) = [s]"
| "symbol_names (Indexed b idx) = symbol_names b @ concat (map symbol_names idx)"
| "symbol_names (Add xs) = concat (map symbol_names xs)"
| "symbol_names (Mul xs) = concat (map symbol_names xs)"
| "symbol_names (Pow_sp b n) = symbol_names b"
| "symbol_names (Abs x) = symbol_names x"
| "symbol_names (re x) = symbol_names x"
| "symbol_names (im x) = symbol_names x"
| "symbol_names (exp_sp x) = symbol_names x"
| "symbol_names (Ynm n m t p) =
     symbol_names n @ symbol_names m @ symbol_names t @ symbol_names p"
| "symbol_names (Ynm_expanded n m t p) =
     symbol_names n @ symbol_names m @ symbol_names t @ symbol_names p"
| "symbol_names (Znm n m t p q) =
     symbol_names n @ symbol_names m @ symbol_names t @ symbol_names p @ symbol_names q"
| "symbol_names (PoolSum e idx) =
     symbol_names e @ concat (map (\<lambda>sv. symbol_names (fst sv)) idx)"
| "symbol_names a = []"

subsection \<open>The generated function and its compilation\<close>

text \<open>The value of each argument in a call; each parameter is bound once.\<close>

definition bind_args :: "expr list \<Rightarrow> complex list \<Rightarrow> expr \<Rightarrow> complex" where
  "bind_args args vals a = (case map_of (zip args vals) a of Some v \<Rightarrow> v | None \<Rightarrow> 0)"

text \<open>
  A call of the generated function. A wrong number of arguments raises \<^verbatim>\<open>TypeError\<close>
  before the body runs. A numeric body gives the value of the tree with each argument
  bound to the number passed for it. A body with a symbol that no argument binds
  raises nothing and returns an object of SymPy; a body that calls \<^verbatim>\<open>Ynm\<close> raises
  \<^verbatim>\<open>NameError\<close>. Arrays are evaluated elementwise: the model is the function at one
  point of the grid.
\<close>

definition generated_function ::
    "harmonic \<Rightarrow> expr list \<Rightarrow> expr \<Rightarrow> complex list \<Rightarrow> no_number + complex" where
  "generated_function Y args e vals =
     (if length vals \<noteq> length args then Inl TypeError
      else if list_ex clashes (concat (map symbol_names (e # args))) then Inl Not_modelled
      else case classify args e of
             Numeric \<Rightarrow> Inr (eval Y (bind_args args vals) e)
           | Symbolic \<Rightarrow> Inl Symbolic_result
           | Unknown_function \<Rightarrow> Inl NameError
           | Outside \<Rightarrow> Inl Not_modelled)"

text \<open>
  Compilation. \<^verbatim>\<open>lambdify\<close> raises nothing of its own; only Python can refuse the
  printed source. The source is well formed when the arguments are pairwise different
  scalar symbols, the tree is unfolded by \<^verbatim>\<open>doit\<close>, and every name that no parameter
  binds is an identifier. Other sources (such as the notebook's base \<^verbatim>\<open>[l]^{(+)}\<close>
  printed outside an argument) are left open.
\<close>

definition lambdify ::
    "harmonic \<Rightarrow> expr list \<Rightarrow> expr
       \<Rightarrow> no_number + (complex list \<Rightarrow> no_number + complex)" where
  "lambdify Y args e =
     (if distinct args \<and> list_all is_scalar_symbol args \<and> unevaluated_free e
         \<and> list_all isidentifier (unbound_names args e)
      then Inr (generated_function Y args e)
      else Inl Not_modelled)"

text \<open>\<^verbatim>\<open>intensity_func = sp.lambdify(arguments, plotted_expr, "numpy", cse=True)\<close>\<close>

definition intensity_func ::
    "harmonic \<Rightarrow> no_number + (complex list \<Rightarrow> no_number + complex)" where
  "intensity_func Y = lambdify Y arguments plotted_expr"

section \<open>The interactive renderer\<close>

text \<open>
  A \<^verbatim>\<open>w.FloatSlider\<close> with the fields the notebook sets; a field that is not given has the
  widget's default (value 0, step 0.1). The two Greek descriptions are written in
  Latin letters. The Python dict \<^verbatim>\<open>sliders\<close> is a list of pairs in insertion order.
\<close>

record FloatSlider =
  description :: string
  slider_min :: real
  slider_max :: real
  slider_value :: real
  slider_step :: real

text \<open>\<^verbatim>\<open>d[k] = v\<close>: an existing key keeps its place, a new key goes to the end.\<close>

definition dict_set :: "('k \<times> 'v) list \<Rightarrow> 'k \<Rightarrow> 'v \<Rightarrow> ('k \<times> 'v) list" where
  "dict_set d k v =
     (if k \<in> set (map fst d) then map (\<lambda>kv. if fst kv = k then (k, v) else kv) d
      else d @ [(k, v)])"

definition startswith :: "string \<Rightarrow> string \<Rightarrow> bool" where
  "startswith s p = (take (length p) s = p)"

definition endswith :: "string \<Rightarrow> string \<Rightarrow> bool" where
  "endswith s p = (length p \<le> length s \<and> drop (length s - length p) s = p)"

text \<open>The two sliders that the cell creates before the loop.\<close>

definition sliders_init :: "(string \<times> FloatSlider) list" where
  "sliders_init =
     [(''Phi_val'', \<lparr>description = ''Phi'', slider_min = 0, slider_max = pi,
                     slider_value = 1, slider_step = pi / 20\<rparr>),
      (''Py_val'', \<lparr>description = ''Pgamma'', slider_min = 0, slider_max = 1,
                    slider_value = 1, slider_step = 1 / 10\<rparr>)]"

text \<open>One round of the loop \<^verbatim>\<open>for s in free_symbols\<close>.\<close>

definition add_amp_sliders ::
    "(string \<times> FloatSlider) list \<Rightarrow> expr \<Rightarrow> (string \<times> FloatSlider) list" where
  "add_amp_sliders d s =
     (if \<not> isinstance_Indexed s then d
      else if \<not> startswith (name s) ''[l]'' then d
      else
        let key = name s;
            d1 = dict_set d (key @ ''_mag'')
                   \<lparr>description = ''magnitude'', slider_min = 0, slider_max = 2,
                    slider_value = (if CHR ''+'' \<in> set (name s) then 1 else 0),
                    slider_step = 1 / 10\<rparr>
        in dict_set d1 (key @ ''_phi'')
             \<lparr>description = ''phase'', slider_min = 0, slider_max = 2,
              slider_value = 0, slider_step = 1 / 10\<rparr>)"

definition sliders :: "(string \<times> FloatSlider) list" where
  "sliders = foldl add_amp_sliders sliders_init free_symbols"

text \<open>
  \<^verbatim>\<open>w.interactive_output(plot, controls=sliders)\<close> calls \<^verbatim>\<open>plot\<close> with the current value
  of every control as a keyword argument, in the order of \<^verbatim>\<open>sliders\<close>; \<open>current\<close> gives
  the value that the user has set for each key.
\<close>

definition control_values :: "(string \<Rightarrow> real) \<Rightarrow> (string \<times> real) list" where
  "control_values current = map (\<lambda>kv. (fst kv, current (fst kv))) sliders"

text \<open>
  The list comprehension of \<^verbatim>\<open>plot\<close>:
  \<^verbatim>\<open>[mag * np.exp(mag_phase[f"{k[:-4]}_phi"] * 1j) for k, mag in mag_phase.items()
     if k.endswith("mag")]\<close>; a missing key raises \<^verbatim>\<open>KeyError\<close>.
\<close>

fun amplitudes_from ::
    "(string \<times> real) list \<Rightarrow> (string \<times> real) list \<Rightarrow> no_number + complex list" where
  "amplitudes_from mag_phase [] = Inr []"
| "amplitudes_from mag_phase ((k, mag) # items) =
     (if endswith k ''mag'' then
        (case map_of mag_phase (take (length k - 4) k @ ''_phi'') of
           None \<Rightarrow> Inl KeyError
         | Some phase \<Rightarrow>
            (case amplitudes_from mag_phase items of
               Inl err \<Rightarrow> Inl err
             | Inr amplitudes \<Rightarrow>
                 Inr (of_real mag * exp (of_real phase * \<i>) # amplitudes)))
      else amplitudes_from mag_phase items)"

text \<open>
  The function \<^verbatim>\<open>plot\<close>, whose parameters \<^verbatim>\<open>Phi_val\<close> and \<^verbatim>\<open>Py_val\<close> are keyword-only and
  whose remaining keywords are collected in \<^verbatim>\<open>mag_phase\<close>, up to the call of
  \<^verbatim>\<open>intensity_func\<close>: the value \<^verbatim>\<open>Z\<close> at the grid point \<open>(theta, phi)\<close>. A missing
  keyword-only argument raises \<^verbatim>\<open>TypeError\<close>. Drawing \<^verbatim>\<open>Z\<close> is not modelled.
\<close>

definition plot ::
    "harmonic \<Rightarrow> real \<Rightarrow> real \<Rightarrow> (string \<times> real) list \<Rightarrow> no_number + complex" where
  "plot Y theta phi kwargs =
     (case (map_of kwargs ''Phi_val'', map_of kwargs ''Py_val'') of
        (Some Phi_val, Some Py_val) \<Rightarrow>
          (let mag_phase =
                 filter (\<lambda>kv. fst kv \<noteq> ''Phi_val'' \<and> fst kv \<noteq> ''Py_val'') kwargs
           in case amplitudes_from mag_phase mag_phase of
                Inl err \<Rightarrow> Inl err
              | Inr amplitudes \<Rightarrow>
                 (case intensity_func Y of
                    Inl err \<Rightarrow> Inl err
                  | Inr f \<Rightarrow>
                      f ([of_real theta, of_real phi, of_real Phi_val, of_real Py_val]
                         @ amplitudes)))
      | _ \<Rightarrow> Inl TypeError)"

section \<open>The unfolded intensity\<close>

text \<open>
  The closed form of \<^verbatim>\<open>intensity_expr.doit()\<close>: \<open>wave_term\<close> is one unfolded summand of an
  inner sum, \<open>unfolded_k\<close> the four squared magnitudes of one flip index.
\<close>

definition Ynm_phase :: "int \<Rightarrow> int \<Rightarrow> expr" where
  "Ynm_phase L mv =
     Mul [Ynm (Integer L) (Integer mv) sym_theta sym_phi,
          exp_sp (Mul [Integer (- 1), ImaginaryUnit, sym_Phi])]"

definition wave_sum :: "expr \<Rightarrow> (expr \<Rightarrow> expr) \<Rightarrow> int \<Rightarrow> int list \<Rightarrow> int \<Rightarrow> expr" where
  "wave_sum base part L ms kv =
     Add (map (\<lambda>mv. Mul [Indexed base [Integer mv, Integer kv], part (Ynm_phase L mv)]) ms)"

definition unfolded_k :: "int \<Rightarrow> int list \<Rightarrow> int \<Rightarrow> expr" where
  "unfolded_k L ms kv =
     Add [
       Mul [Add [Integer 1, Mul [Integer (- 1), Py]],
            Pow_sp (Abs (wave_sum lm re L ms kv)) 2],
       Mul [Add [Integer 1, Mul [Integer (- 1), Py]],
            Pow_sp (Abs (wave_sum lp im L ms kv)) 2],
       Mul [Add [Integer 1, Py],
            Pow_sp (Abs (wave_sum lp re L ms kv)) 2],
       Mul [Add [Integer 1, Py],
            Pow_sp (Abs (wave_sum lm im L ms kv)) 2]]"

text \<open>The value of the four squared magnitudes of one flip index, for a real polarisation \<open>P\<close>.\<close>

definition intensity_value :: "harmonic \<Rightarrow> (expr \<Rightarrow> complex) \<Rightarrow> real \<Rightarrow> int \<Rightarrow> int list \<Rightarrow> int \<Rightarrow> real" where
  "intensity_value Y env P L ms kv =
       (1 - P) * (cmod (eval Y env (wave_sum lm re L ms kv)))\<^sup>2
     + (1 - P) * (cmod (eval Y env (wave_sum lp im L ms kv)))\<^sup>2
     + (1 + P) * (cmod (eval Y env (wave_sum lp re L ms kv)))\<^sup>2
     + (1 + P) * (cmod (eval Y env (wave_sum lm im L ms kv)))\<^sup>2"

text \<open>
  The two kinds of slider that the loop creates, and the complex amplitude that \<^verbatim>\<open>plot\<close>
  forms for a coefficient from the current values of its two sliders.
\<close>

definition mag_slider :: "real \<Rightarrow> FloatSlider" where
  "mag_slider v = \<lparr>description = ''magnitude'', slider_min = 0, slider_max = 2,
                    slider_value = v, slider_step = 1 / 10\<rparr>"

definition phase_slider :: FloatSlider where
  "phase_slider = \<lparr>description = ''phase'', slider_min = 0, slider_max = 2,
              slider_value = 0, slider_step = 1 / 10\<rparr>"

definition amplitude_of :: "(string \<Rightarrow> real) \<Rightarrow> expr \<Rightarrow> complex" where
  "amplitude_of current s =
     of_real (current (name s @ ''_mag'')) * exp (of_real (current (name s @ ''_phi'')) * \<i>)"

lemmas symbol_defs =
  sym_k_def sym_l_def sym_m_def sym_phi_def sym_theta_def sym_Phi_def kappa_def Py_def
  lp_def lm_def znm_def

lemma product_lists_one: "product_lists [xs] = map (\<lambda>x. [x]) xs"
  by (induction xs) simp_all

lemma product_lists_two: "product_lists [[a], xs] = map (\<lambda>x. [a, x]) xs"
  by (simp add: product_lists_one comp_def)

lemma doit_inner_sum:
  assumes "part = re \<or> part = im" and "base = lp \<or> base = lm"
  shows "doit (PoolSum (Mul [Indexed base [sym_m, Integer kv], part znm])
                  [(sym_l, l_range_of L), (sym_m, ms)])
         = wave_sum base part L ms kv"
  using assms
  by (auto simp: PoolSum_evaluate_def l_range_of_def product_lists_two comp_def wave_sum_def
      Ynm_phase_def Znm_evaluate_def symbol_defs)

lemma doit_intensity_expr_of:
  "doit (intensity_expr_of L ks ms) = Mul [Integer 2, kappa, Add (map (unfolded_k L ms) ks)]"
proof -
  have inner: "doit (PoolSum (Mul [Indexed base [sym_m, Integer kv], part znm])
                  [(sym_l, l_range_of L), (sym_m, ms)]) = wave_sum base part L ms kv"
    if "part = re \<or> part = im" and "base = lp \<or> base = lm" for base part kv
    using that by (rule doit_inner_sum)
  have sub: "xreplace [sym_k \<mapsto> Integer kv]
        (PoolSum (Mul [Indexed base [sym_m, sym_k], part znm])
                  [(sym_l, l_range_of L), (sym_m, ms)])
      = PoolSum (Mul [Indexed base [sym_m, Integer kv], part znm])
                  [(sym_l, l_range_of L), (sym_m, ms)]"
    if "part = re \<or> part = im" and "base = lp \<or> base = lm" for base part kv
    using that by (auto simp: symbol_defs)
  have coef: "xreplace [sym_k \<mapsto> Integer kv] (Add [Integer 1, Mul [Integer (- 1), Py]])
      = Add [Integer 1, Mul [Integer (- 1), Py]]"
    "xreplace [sym_k \<mapsto> Integer kv] (Add [Integer 1, Py]) = Add [Integer 1, Py]"
    for kv
    by (simp_all add: symbol_defs)
  have kap: "doit kappa = kappa" "doit Py = Py"
    by (simp_all add: symbol_defs)
  have step: "doit (xreplace [sym_k \<mapsto> Integer kv]
        (Mul [c, Pow_sp (Abs (PoolSum (Mul [Indexed base [sym_m, sym_k], part znm])
                  [(sym_l, l_range_of L), (sym_m, ms)])) 2]))
      = Mul [doit (xreplace [sym_k \<mapsto> Integer kv] c),
             Pow_sp (Abs (wave_sum base part L ms kv)) 2]"
    if "part = re \<or> part = im" and "base = lp \<or> base = lm" for base part kv c
  proof -
    have "xreplace [sym_k \<mapsto> Integer kv]
        (Mul [c, Pow_sp (Abs (PoolSum (Mul [Indexed base [sym_m, sym_k], part znm])
                  [(sym_l, l_range_of L), (sym_m, ms)])) 2])
      = Mul [xreplace [sym_k \<mapsto> Integer kv] c,
          Pow_sp (Abs (PoolSum (Mul [Indexed base [sym_m, Integer kv], part znm])
                  [(sym_l, l_range_of L), (sym_m, ms)])) 2]"
      using sub [OF that, of kv] by (simp add: sym_k_def)
    then show ?thesis
      using inner [OF that, of kv] by simp
  qed
  have body: "doit (xreplace [sym_k \<mapsto> Integer kv]
         (Add [
            Mul [Add [Integer 1, Mul [Integer (- 1), Py]],
                 Pow_sp (Abs (PoolSum (Mul [Indexed lm [sym_m, sym_k], re znm])
                                [(sym_l, l_range_of L), (sym_m, ms)])) 2],
            Mul [Add [Integer 1, Mul [Integer (- 1), Py]],
                 Pow_sp (Abs (PoolSum (Mul [Indexed lp [sym_m, sym_k], im znm])
                                [(sym_l, l_range_of L), (sym_m, ms)])) 2],
            Mul [Add [Integer 1, Py],
                 Pow_sp (Abs (PoolSum (Mul [Indexed lp [sym_m, sym_k], re znm])
                                [(sym_l, l_range_of L), (sym_m, ms)])) 2],
            Mul [Add [Integer 1, Py],
                 Pow_sp (Abs (PoolSum (Mul [Indexed lm [sym_m, sym_k], im znm])
                                [(sym_l, l_range_of L), (sym_m, ms)])) 2]]))
      = unfolded_k L ms kv" for kv
  proof -
    have "xreplace [sym_k \<mapsto> Integer kv] (Add xs)
        = Add (map (xreplace [sym_k \<mapsto> Integer kv]) xs)" for xs
      by (simp add: sym_k_def)
    then show ?thesis
      by (simp add: step coef kap unfolded_k_def del: xreplace.simps)
  qed
  show ?thesis
    unfolding intensity_expr_of_def
    by (simp add: PoolSum_evaluate_def product_lists_one comp_def body kap
        del: xreplace.simps)
qed

lemma unevaluated_free_doit: "unevaluated_free (doit e)"
  by (induction e rule: doit.induct) (simp_all add: list_all_iff Znm_evaluate_def)

lemma doit_fixed: "unevaluated_free e \<Longrightarrow> doit e = e"
  by (induction e rule: unevaluated_free.induct) (simp_all add: list_all_iff map_idI)

lemma doit_idempotent: "doit (doit e) = doit e"
  by (rule doit_fixed) (rule unevaluated_free_doit)

lemma concat_replicate_const: "concat (map (\<lambda>x. [c]) xs) = replicate (length xs) c"
  by (induction xs) simp_all

lemma concat_map_replicate:
  "concat (map (\<lambda>x. replicate n c) xs) = replicate (length xs * n) c"
  by (induction xs) (simp_all add: replicate_add)

lemma Ynm_degrees_wave_sum:
  assumes "part = re \<or> part = im" and "base = lp \<or> base = lm"
  shows "Ynm_degrees (wave_sum base part L ms kv) = replicate (length ms) (Integer L)"
  using assms
  by (auto simp: wave_sum_def Ynm_phase_def comp_def symbol_defs map_replicate_const)

lemma Ynm_degrees_unfolded_k:
  "Ynm_degrees (unfolded_k L ms kv) = replicate (4 * length ms) (Integer L)"
  by (simp add: unfolded_k_def Ynm_degrees_wave_sum Py_def replicate_add [symmetric])

lemma count_abs_sq_wave_sum:
  assumes "part = re \<or> part = im" and "base = lp \<or> base = lm"
  shows "count_abs_sq (wave_sum base part L ms kv) = 0"
  using assms
  by (auto simp: wave_sum_def Ynm_phase_def comp_def symbol_defs)

lemma count_abs_sq_unfolded_k: "count_abs_sq (unfolded_k L ms kv) = 4"
  by (simp add: unfolded_k_def count_abs_sq_wave_sum Py_def)

subsection \<open>The compiled intensity\<close>

lemma free_symbols_explicit: "free_symbols =
  [Py, sym_Phi, lp,
   Indexed lp [Integer (- 1), Integer 0], Indexed lp [Integer (- 2), Integer 0],
   Indexed lp [Integer 0, Integer 0], Indexed lp [Integer 1, Integer 0],
   Indexed lp [Integer 2, Integer 0], lm,
   Indexed lm [Integer (- 1), Integer 0], Indexed lm [Integer (- 2), Integer 0],
   Indexed lm [Integer 0, Integer 0], Indexed lm [Integer 1, Integer 0],
   Indexed lm [Integer 2, Integer 0], kappa, sym_phi, sym_theta]"
  by code_simp

lemma amp_symbols_explicit: "amp_symbols =
  [Indexed lp [Integer (- 1), Integer 0], Indexed lp [Integer (- 2), Integer 0],
   Indexed lp [Integer 0, Integer 0], Indexed lp [Integer 1, Integer 0],
   Indexed lp [Integer 2, Integer 0],
   Indexed lm [Integer (- 1), Integer 0], Indexed lm [Integer (- 2), Integer 0],
   Indexed lm [Integer 0, Integer 0], Indexed lm [Integer 1, Integer 0],
   Indexed lm [Integer 2, Integer 0]]"
  by (simp add: amp_symbols_def free_symbols_explicit symbol_defs)

lemma arguments_explicit: "arguments =
  [sym_theta, sym_phi, sym_Phi, Py,
   Indexed lp [Integer (- 1), Integer 0], Indexed lp [Integer (- 2), Integer 0],
   Indexed lp [Integer 0, Integer 0], Indexed lp [Integer 1, Integer 0],
   Indexed lp [Integer 2, Integer 0],
   Indexed lm [Integer (- 1), Integer 0], Indexed lm [Integer (- 2), Integer 0],
   Indexed lm [Integer 0, Integer 0], Indexed lm [Integer 1, Integer 0],
   Indexed lm [Integer 2, Integer 0]]"
  by (simp add: arguments_def amp_symbols_explicit)

lemma xreplace_kappa_wave_sum:
  assumes "part = re \<or> part = im" and "base = lp \<or> base = lm"
  shows "xreplace [kappa \<mapsto> Pi] (wave_sum base part L ms kv) = wave_sum base part L ms kv"
  using assms by (auto simp: wave_sum_def Ynm_phase_def symbol_defs)

lemma xreplace_kappa_unfolded_k:
  "xreplace [kappa \<mapsto> Pi] (unfolded_k L ms kv) = unfolded_k L ms kv"
proof -
  have ws: "xreplace [kappa \<mapsto> Pi] (Pow_sp (Abs (wave_sum base part L ms kv)) 2)
      = Pow_sp (Abs (wave_sum base part L ms kv)) 2"
    if "part = re \<or> part = im" and "base = lp \<or> base = lm" for base part
    using xreplace_kappa_wave_sum [OF that, of L ms kv] by (simp add: kappa_def)
  have c: "xreplace [kappa \<mapsto> Pi] (Integer i) = Integer i"
    "xreplace [kappa \<mapsto> Pi] Py = Py" for i
    by (simp_all add: symbol_defs)
  have m: "xreplace [kappa \<mapsto> Pi] (Mul [a, b])
      = Mul [xreplace [kappa \<mapsto> Pi] a, xreplace [kappa \<mapsto> Pi] b]" for a b
    by (simp add: kappa_def)
  have a: "xreplace [kappa \<mapsto> Pi] (Add xs) = Add (map (xreplace [kappa \<mapsto> Pi]) xs)" for xs
    by (simp add: kappa_def)
  show ?thesis
    unfolding unfolded_k_def by (simp add: a m c ws del: xreplace.simps)
qed

lemma plotted_expr_of_closed:
  "xreplace [kappa \<mapsto> Pi] (doit (intensity_expr_of L ks ms))
     = Mul [Integer 2, Pi, Add (map (unfolded_k L ms) ks)]"
proof -
  have "xreplace [kappa \<mapsto> Pi] (Mul [Integer 2, kappa, Add xs])
      = Mul [Integer 2, Pi, Add (map (xreplace [kappa \<mapsto> Pi]) xs)]" for xs
    by (simp add: kappa_def)
  then show ?thesis
    by (simp add: doit_intensity_expr_of xreplace_kappa_unfolded_k comp_def
        del: xreplace.simps)
qed

lemma eval_expand_func_wave_sum:
  assumes "part = re \<or> part = im" and "base = lp \<or> base = lm"
  shows "eval Y env (expand_func (wave_sum base part L ms kv))
       = eval Y env (wave_sum base part L ms kv)"
  using assms by (auto simp: wave_sum_def Ynm_phase_def comp_def symbol_defs)

lemma eval_expand_func_unfolded_k:
  "eval Y env (expand_func (unfolded_k L ms kv)) = eval Y env (unfolded_k L ms kv)"
  unfolding unfolded_k_def by (simp add: eval_expand_func_wave_sum Py_def)

lemma eval_plotted_expr:
  "eval Y env plotted_expr
     = eval Y env (Mul [Integer 2, Pi, Add (map (unfolded_k max_l m_range) k_values)])"
  by (simp add: plotted_expr_def intensity_expr_def plotted_expr_of_closed comp_def
      eval_expand_func_unfolded_k)

lemma unbound_plotted: "unbound_names arguments plotted_expr = []"
  by code_simp

lemma unevaluated_free_plotted: "unevaluated_free plotted_expr"
  by code_simp

lemma classify_plotted: "classify arguments plotted_expr = Numeric"
  by code_simp

lemma no_clash_plotted:
  "\<not> list_ex clashes (concat (map symbol_names (plotted_expr # arguments)))"
  by code_simp

lemma eval_wave_sum_re:
  assumes "base = lp \<or> base = lm"
  shows "eval Y env (wave_sum base re L ms kv)
    = (\<Sum>mv\<leftarrow>ms. env (Indexed base [Integer mv, Integer kv])
                      * of_real (Re (eval Y env (Ynm_phase L mv))))"
  using assms by (auto simp: wave_sum_def comp_def)

lemma eval_wave_sum_im:
  assumes "base = lp \<or> base = lm"
  shows "eval Y env (wave_sum base im L ms kv)
    = (\<Sum>mv\<leftarrow>ms. env (Indexed base [Integer mv, Integer kv])
                      * of_real (Im (eval Y env (Ynm_phase L mv))))"
  using assms by (auto simp: wave_sum_def comp_def)

lemma eval_Ynm_phase:
  "eval Y env (Ynm_phase L mv)
     = Y (of_int L) (of_int mv) (env sym_theta) (env sym_phi) * exp (- (\<i> * env sym_Phi))"
  by (simp add: Ynm_phase_def symbol_defs)

lemma eval_unfolded_k:
  "eval Y env (unfolded_k L ms kv)
     = (1 - env Py) * (of_real (cmod (eval Y env (wave_sum lm re L ms kv))))\<^sup>2
     + (1 - env Py) * (of_real (cmod (eval Y env (wave_sum lp im L ms kv))))\<^sup>2
     + (1 + env Py) * (of_real (cmod (eval Y env (wave_sum lp re L ms kv))))\<^sup>2
     + (1 + env Py) * (of_real (cmod (eval Y env (wave_sum lm im L ms kv))))\<^sup>2"
  by (simp add: unfolded_k_def Py_def)

lemma eval_unfolded_k_real:
  assumes "env Py = of_real P"
  shows "eval Y env (unfolded_k L ms kv)
     = of_real ((1 - P) * (cmod (eval Y env (wave_sum lm re L ms kv)))\<^sup>2
     + (1 - P) * (cmod (eval Y env (wave_sum lp im L ms kv)))\<^sup>2
     + (1 + P) * (cmod (eval Y env (wave_sum lp re L ms kv)))\<^sup>2
     + (1 + P) * (cmod (eval Y env (wave_sum lm im L ms kv)))\<^sup>2)"
  by (simp add: eval_unfolded_k assms)

lemma intensity_value_nonneg:
  assumes "0 \<le> P" and "P \<le> 1"
  shows "0 \<le> intensity_value Y env P L ms kv"
  unfolding intensity_value_def using assms by (intro add_nonneg_nonneg mult_nonneg_nonneg) simp_all

lemma eval_plotted_real:
  assumes "env Py = of_real P"
  shows "eval Y env (Mul [Integer 2, Pi, Add (map (unfolded_k L ms) ks)])
     = of_real (2 * pi * (\<Sum>kv\<leftarrow>ks. intensity_value Y env P L ms kv))"
proof -
  have "(\<Sum>kv\<leftarrow>ks. eval Y env (unfolded_k L ms kv))
      = of_real (\<Sum>kv\<leftarrow>ks. intensity_value Y env P L ms kv)"
    by (induction ks) (simp_all add: eval_unfolded_k_real [where env = env and P = P, OF assms] intensity_value_def)
  then show ?thesis
    by (simp add: comp_def)
qed

lemma plotted_nonneg:
  assumes "env Py = of_real P" and "0 \<le> P" and "P \<le> 1"
  shows "Im (eval Y env (Mul [Integer 2, Pi, Add (map (unfolded_k L ms) ks)])) = 0
       \<and> 0 \<le> Re (eval Y env (Mul [Integer 2, Pi, Add (map (unfolded_k L ms) ks)]))"
proof -
  have "0 \<le> (\<Sum>kv\<leftarrow>ks. intensity_value Y env P L ms kv)"
    by (rule sum_list_nonneg) (auto simp: intensity_value_nonneg assms)
  then show ?thesis
    unfolding eval_plotted_real [where env = env and P = P, OF assms(1)] by simp
qed

lemma length_arguments: "length arguments = 14"
  by (simp add: arguments_explicit)

lemma distinct_arguments: "distinct arguments"
  by (simp add: arguments_explicit symbol_defs)

lemma scalar_arguments: "list_all is_scalar_symbol arguments"
  by (simp add: arguments_explicit symbol_defs)

lemma bind_args_nth:
  assumes "distinct args" and "length vals = length args" and "i < length args"
  shows "bind_args args vals (args ! i) = vals ! i"
  using assms by (simp add: bind_args_def map_of_zip_nth)

lemma bind_arguments_Py:
  assumes "length vals = 14"
  shows "bind_args arguments vals Py = vals ! 3"
proof -
  have "arguments ! 3 = Py" by (simp add: arguments_explicit)
  then show ?thesis
    using bind_args_nth [OF distinct_arguments, of vals 3] assms length_arguments by simp
qed

lemma intensity_func_compiles:
  "intensity_func Y = Inr (generated_function Y arguments plotted_expr)"
  by (simp add: intensity_func_def lambdify_def unbound_plotted unevaluated_free_plotted
      distinct_arguments scalar_arguments)

lemma intensity_func_call:
  assumes "length vals = 14"
  shows "generated_function Y arguments plotted_expr vals
     = Inr (eval Y (bind_args arguments vals) plotted_expr)"
  using assms no_clash_plotted
  by (simp add: generated_function_def classify_plotted length_arguments)

lemma length_amp_symbols: "length amp_symbols = 10"
  by (simp add: amp_symbols_explicit)

lemma m_range_explicit: "m_range = [- 2, - 1, 0, 1, 2]"
  by code_simp

lemma bind_arguments_explicit:
  "bind_args arguments [t, p, q, P, x1, x2, x3, x4, x5, y1, y2, y3, y4, y5] =
     (\<lambda>a. if a = sym_theta then t else if a = sym_phi then p else if a = sym_Phi then q
          else if a = Py then P
          else if a = Indexed lp [Integer (- 1), Integer 0] then x1
          else if a = Indexed lp [Integer (- 2), Integer 0] then x2
          else if a = Indexed lp [Integer 0, Integer 0] then x3
          else if a = Indexed lp [Integer 1, Integer 0] then x4
          else if a = Indexed lp [Integer 2, Integer 0] then x5
          else if a = Indexed lm [Integer (- 1), Integer 0] then y1
          else if a = Indexed lm [Integer (- 2), Integer 0] then y2
          else if a = Indexed lm [Integer 0, Integer 0] then y3
          else if a = Indexed lm [Integer 1, Integer 0] then y4
          else if a = Indexed lm [Integer 2, Integer 0] then y5
          else 0)"
  by (rule ext) (simp add: bind_args_def arguments_explicit)

lemma eval_Ynm_phase_bind:
  "eval Y (bind_args arguments [t, p, q, P, x1, x2, x3, x4, x5, y1, y2, y3, y4, y5])
      (Ynm_phase L mv) = Y (of_int L) (of_int mv) t p * exp (- (\<i> * q))"
  by (simp add: eval_Ynm_phase bind_arguments_explicit symbol_defs)

lemma wave_sums_bind:
  fixes t p q P x1 x2 x3 x4 x5 y1 y2 y3 y4 y5 :: complex
  defines "env \<equiv> bind_args arguments [t, p, q, P, x1, x2, x3, x4, x5, y1, y2, y3, y4, y5]"
  shows "(\<Sum>mv\<leftarrow>[- 2, - 1, 0, 1, 2]. env (Indexed lp [Integer mv, Integer 0]) * f mv)
       = x2 * f (- 2) + x1 * f (- 1) + x3 * f 0 + x4 * f 1 + x5 * f 2"
    and "(\<Sum>mv\<leftarrow>[- 2, - 1, 0, 1, 2]. env (Indexed lm [Integer mv, Integer 0]) * f mv)
       = y2 * f (- 2) + y1 * f (- 1) + y3 * f 0 + y4 * f 1 + y5 * f 2"
  unfolding env_def bind_arguments_explicit by (simp_all add: symbol_defs)

lemma eval_wave_sums_swap:
  fixes t p q P x1 x2 x3 x4 x5 y1 y2 y3 y4 y5 :: complex
  defines "env \<equiv> bind_args arguments [t, p, q, P, x1, x2, x3, x4, x5, y1, y2, y3, y4, y5]"
    and "env' \<equiv> bind_args arguments [t, p, q, P, y1, y2, y3, y4, y5, x1, x2, x3, x4, x5]"
  shows "eval Y env' (wave_sum lp re max_l m_range 0) = eval Y env (wave_sum lm re max_l m_range 0)"
    and "eval Y env' (wave_sum lm re max_l m_range 0) = eval Y env (wave_sum lp re max_l m_range 0)"
    and "eval Y env' (wave_sum lp im max_l m_range 0) = eval Y env (wave_sum lm im max_l m_range 0)"
    and "eval Y env' (wave_sum lm im max_l m_range 0) = eval Y env (wave_sum lp im max_l m_range 0)"
  unfolding env_def env'_def m_range_explicit
  by (simp_all only: eval_wave_sum_re eval_wave_sum_im eval_Ynm_phase_bind wave_sums_bind
      simp_thms)

subsection \<open>The sliders and the unbound scale\<close>

lemma name_amp:
  "name (Indexed lp [Integer (- 1), Integer 0]) = ''[l]^{(+)}[-1, 0]''"
  "name (Indexed lp [Integer (- 2), Integer 0]) = ''[l]^{(+)}[-2, 0]''"
  "name (Indexed lp [Integer 0, Integer 0]) = ''[l]^{(+)}[0, 0]''"
  "name (Indexed lp [Integer 1, Integer 0]) = ''[l]^{(+)}[1, 0]''"
  "name (Indexed lp [Integer 2, Integer 0]) = ''[l]^{(+)}[2, 0]''"
  "name (Indexed lm [Integer (- 1), Integer 0]) = ''[l]^{(-)}[-1, 0]''"
  "name (Indexed lm [Integer (- 2), Integer 0]) = ''[l]^{(-)}[-2, 0]''"
  "name (Indexed lm [Integer 0, Integer 0]) = ''[l]^{(-)}[0, 0]''"
  "name (Indexed lm [Integer 1, Integer 0]) = ''[l]^{(-)}[1, 0]''"
  "name (Indexed lm [Integer 2, Integer 0]) = ''[l]^{(-)}[2, 0]''"
  by (simp_all add: name_def lp_def lm_def str_int_def join_def digit_char_def)

lemma isinstance_Indexed_symbols:
  "\<not> isinstance_Indexed Py" "\<not> isinstance_Indexed sym_Phi" "\<not> isinstance_Indexed lp"
  "\<not> isinstance_Indexed lm" "\<not> isinstance_Indexed kappa" "\<not> isinstance_Indexed sym_phi"
  "\<not> isinstance_Indexed sym_theta"
  by (simp_all add: symbol_defs)

lemma sliders_explicit: "sliders =
  sliders_init @
  [(''[l]^{(+)}[-1, 0]_mag'', mag_slider 1), (''[l]^{(+)}[-1, 0]_phi'', phase_slider),
   (''[l]^{(+)}[-2, 0]_mag'', mag_slider 1), (''[l]^{(+)}[-2, 0]_phi'', phase_slider),
   (''[l]^{(+)}[0, 0]_mag'', mag_slider 1), (''[l]^{(+)}[0, 0]_phi'', phase_slider),
   (''[l]^{(+)}[1, 0]_mag'', mag_slider 1), (''[l]^{(+)}[1, 0]_phi'', phase_slider),
   (''[l]^{(+)}[2, 0]_mag'', mag_slider 1), (''[l]^{(+)}[2, 0]_phi'', phase_slider),
   (''[l]^{(-)}[-1, 0]_mag'', mag_slider 0), (''[l]^{(-)}[-1, 0]_phi'', phase_slider),
   (''[l]^{(-)}[-2, 0]_mag'', mag_slider 0), (''[l]^{(-)}[-2, 0]_phi'', phase_slider),
   (''[l]^{(-)}[0, 0]_mag'', mag_slider 0), (''[l]^{(-)}[0, 0]_phi'', phase_slider),
   (''[l]^{(-)}[1, 0]_mag'', mag_slider 0), (''[l]^{(-)}[1, 0]_phi'', phase_slider),
   (''[l]^{(-)}[2, 0]_mag'', mag_slider 0), (''[l]^{(-)}[2, 0]_phi'', phase_slider)]"
  by (simp add: sliders_def free_symbols_explicit add_amp_sliders_def name_amp
      startswith_def dict_set_def sliders_init_def Let_def mag_slider_def phase_slider_def
      isinstance_Indexed_symbols)

lemma slider_keys: "map fst sliders =
  [''Phi_val'', ''Py_val'',
   ''[l]^{(+)}[-1, 0]_mag'', ''[l]^{(+)}[-1, 0]_phi'',
   ''[l]^{(+)}[-2, 0]_mag'', ''[l]^{(+)}[-2, 0]_phi'',
   ''[l]^{(+)}[0, 0]_mag'', ''[l]^{(+)}[0, 0]_phi'',
   ''[l]^{(+)}[1, 0]_mag'', ''[l]^{(+)}[1, 0]_phi'',
   ''[l]^{(+)}[2, 0]_mag'', ''[l]^{(+)}[2, 0]_phi'',
   ''[l]^{(-)}[-1, 0]_mag'', ''[l]^{(-)}[-1, 0]_phi'',
   ''[l]^{(-)}[-2, 0]_mag'', ''[l]^{(-)}[-2, 0]_phi'',
   ''[l]^{(-)}[0, 0]_mag'', ''[l]^{(-)}[0, 0]_phi'',
   ''[l]^{(-)}[1, 0]_mag'', ''[l]^{(-)}[1, 0]_phi'',
   ''[l]^{(-)}[2, 0]_mag'', ''[l]^{(-)}[2, 0]_phi'']"
  by (simp add: sliders_explicit sliders_init_def)

lemma control_values_keys:
  "control_values current = map (\<lambda>k. (k, current k)) (map fst sliders)"
  by (simp add: control_values_def comp_def)

lemma control_values_explicit: "control_values current =
  [(''Phi_val'', current ''Phi_val''), (''Py_val'', current ''Py_val'')]
  @ concat (map (\<lambda>s. [(name s @ ''_mag'', current (name s @ ''_mag'')),
                         (name s @ ''_phi'', current (name s @ ''_phi''))]) amp_symbols)"
  unfolding control_values_keys slider_keys amp_symbols_explicit
  by (simp add: name_amp)

lemma mag_phase_explicit:
  "filter (\<lambda>kv. fst kv \<noteq> ''Phi_val'' \<and> fst kv \<noteq> ''Py_val'') (control_values current)
   = concat (map (\<lambda>s. [(name s @ ''_mag'', current (name s @ ''_mag'')),
                         (name s @ ''_phi'', current (name s @ ''_phi''))]) amp_symbols)"
  unfolding control_values_keys slider_keys amp_symbols_explicit
  by (simp add: name_amp)

lemma amplitudes_explicit:
  "amplitudes_from
     (concat (map (\<lambda>s. [(name s @ ''_mag'', current (name s @ ''_mag'')),
                         (name s @ ''_phi'', current (name s @ ''_phi''))]) amp_symbols))
     (concat (map (\<lambda>s. [(name s @ ''_mag'', current (name s @ ''_mag'')),
                         (name s @ ''_phi'', current (name s @ ''_phi''))]) amp_symbols))
   = Inr (map (amplitude_of current) amp_symbols)"
  unfolding amp_symbols_explicit
  by (simp add: name_amp endswith_def amplitude_of_def)

lemma plot_call:
  "plot Y theta phi (control_values current)
     = generated_function Y arguments plotted_expr
         ([of_real theta, of_real phi, of_real (current ''Phi_val''),
           of_real (current ''Py_val'')] @ map (amplitude_of current) amp_symbols)"
proof -
  have "map_of (control_values current) ''Phi_val'' = Some (current ''Phi_val'')"
    "map_of (control_values current) ''Py_val'' = Some (current ''Py_val'')"
    by (simp_all add: control_values_explicit)
  then show ?thesis
    by (simp add: plot_def mag_phase_explicit amplitudes_explicit intensity_func_compiles)
qed

lemma eval_unfolded_k_kappa:
  "eval Y (env(kappa := c)) (unfolded_k L ms kv) = eval Y env (unfolded_k L ms kv)"
  by (simp add: eval_unfolded_k eval_wave_sum_re eval_wave_sum_im eval_Ynm_phase symbol_defs)

lemma eval_plotted_kappa:
  "eval Y env (xreplace [kappa \<mapsto> Pi] (doit (intensity_expr_of L ks ms)))
     = eval Y (env(kappa := of_real pi)) (doit (intensity_expr_of L ks ms))"
proof -
  have k: "eval Y (env(kappa := of_real pi)) kappa = of_real pi"
    by (simp add: kappa_def)
  have "eval Y env (xreplace [kappa \<mapsto> Pi] (doit (intensity_expr_of L ks ms)))
      = 2 * of_real pi * (\<Sum>kv\<leftarrow>ks. eval Y env (unfolded_k L ms kv))"
    unfolding plotted_expr_of_closed by (simp add: comp_def)
  moreover have "eval Y (env(kappa := of_real pi)) (doit (intensity_expr_of L ks ms))
      = 2 * of_real pi * (\<Sum>kv\<leftarrow>ks. eval Y env (unfolded_k L ms kv))"
    unfolding doit_intensity_expr_of by (simp add: comp_def k eval_unfolded_k_kappa)
  ultimately show ?thesis by simp
qed

lemma eval_plotted_expr_kappa:
  "eval Y env plotted_expr = eval Y (env(kappa := of_real pi)) (doit intensity_expr)"
  by (simp add: eval_plotted_expr intensity_expr_def eval_plotted_kappa [symmetric]
      plotted_expr_of_closed del: eval.simps)

lemma kappa_not_argument: "kappa \<notin> set arguments"
  by (simp add: arguments_explicit symbol_defs)






lemma classify_doit_intensity:
  "classify arguments (doit intensity_expr) = Unknown_function"
  by code_simp

lemma no_clash_doit_intensity:
  "\<not> list_ex clashes (concat (map symbol_names (doit intensity_expr # arguments)))"
  by code_simp

text \<open>
  Without \<^verbatim>\<open>expand(func=True)\<close> the generated body still calls \<^verbatim>\<open>Ynm\<close>, and every call
  with the right number of arguments raises \<^verbatim>\<open>NameError\<close>.
\<close>

lemma doit_only_call:
  assumes "length vals = length arguments"
  shows "generated_function Y arguments (doit intensity_expr) vals = Inl NameError"
  using assms no_clash_doit_intensity
  by (simp add: generated_function_def classify_doit_intensity)

lemma Ynm_degree_2_scenario:
  "Im (Ynm_degree_2 2 m (of_real pi / 2) 0 * exp (- (\<i> * 0))) = 0"
proof -
  have h: "complex_of_real pi / 2 = of_real (pi / 2)"
    by simp
  have c: "cos (complex_of_real pi / 2) = 0"
    unfolding h by (simp only: cos_of_real cos_pi_half of_real_0)
  have s: "sin (complex_of_real pi / 2) = 1"
    unfolding h by (simp only: sin_of_real sin_pi_half of_real_1)
  show ?thesis
    by (simp add: Ynm_degree_2_def c s)
qed

lemma scenario_value:
  "generated_function Ynm_degree_2 arguments plotted_expr
     [of_real pi / 2, 0, 0, 1, 0, 0, 0, 0, 0, 1, 1, 1, 1, 1] = Inr 0"
proof -
  let ?env = "bind_args arguments [of_real pi / 2, 0, 0, 1, 0, 0, 0, 0, 0, 1, 1, 1, 1, 1]"
  have P: "?env Py = 1"
    by (simp add: bind_arguments_explicit symbol_defs)
  have ph: "Im (eval Ynm_degree_2 ?env (Ynm_phase max_l mv)) = 0" for mv
    unfolding eval_Ynm_phase_bind using Ynm_degree_2_scenario [of "of_int mv"]
    by (simp add: max_l_def)
  note ph' = ph [of "- 2"] ph [of "- 1"] ph [of 0] ph [of 1] ph [of 2]
  have a: "eval Ynm_degree_2 ?env (wave_sum lp re max_l m_range 0) = 0"
    unfolding m_range_explicit eval_wave_sum_re [of lp, simplified] wave_sums_bind by simp
  have b: "eval Ynm_degree_2 ?env (wave_sum lm im max_l m_range 0) = 0"
    unfolding m_range_explicit eval_wave_sum_im [of lm, simplified] wave_sums_bind ph'
    by simp
  have "eval Ynm_degree_2 ?env plotted_expr = 0"
    by (simp add: eval_plotted_expr k_values_def eval_unfolded_k P a b)
  then show ?thesis
    by (simp add: intensity_func_call)
qed

section \<open>The claims\<close>

text \<open>
  C1 (as the code has it). For every valid input, that is non-empty ranges and pairwise
  different flip indices, the unfolded intensity \<^verbatim>\<open>intensity_expr.doit()\<close> contains
  exactly four squared-magnitude nodes \<^verbatim>\<open>Abs(...)**2\<close> for each flip index: the sums over
  \<^verbatim>\<open>l\<close> and \<^verbatim>\<open>m\<close> stand inside the magnitudes, so the size of \<^verbatim>\<open>m_range\<close> does not
  multiply their number.
\<close>

theorem C1_abs_sq_count:
  assumes "k_vals \<noteq> []" and "m_vals \<noteq> []" and "distinct k_vals"
  shows "count_abs_sq (doit (intensity_expr_of L k_vals m_vals)) = length k_vals * 4"
proof -
  have "sum_list (map (\<lambda>kv. count_abs_sq (unfolded_k L m_vals kv)) k_vals)
      = length k_vals * 4"
    by (simp add: count_abs_sq_unfolded_k sum_list_triv)
  then show ?thesis
    by (simp add: doit_intensity_expr_of comp_def kappa_def)
qed

theorem C1_abs_sq_count_witness:
  "k_values \<noteq> [] \<and> m_range \<noteq> [] \<and> distinct k_values
   \<and> count_abs_sq (doit (intensity_expr_of max_l k_values m_range)) = 4"
proof -
  have h: "k_values \<noteq> []" "m_range \<noteq> []" "distinct k_values"
    by (simp_all add: k_values_def m_range_def create_range_def max_l_def upto.simps)
  show ?thesis
    using h C1_abs_sq_count [OF h, of max_l] by (simp add: k_values_def)
qed

text \<open>
  C1 as the specification states it fails on the notebook's own input: with one flip
  index and five values of \<^verbatim>\<open>m\<close> the unfolded intensity has 4 squared magnitudes, not
  \<open>1 * 5 * 4 = 20\<close>.
\<close>

theorem C1_counterexample:
  "count_abs_sq (doit intensity_expr) = 4 \<and> length k_values * length m_range * 4 = 20"
proof -
  have "count_abs_sq (doit intensity_expr) = length k_values * 4"
    by (simp add: intensity_expr_def doit_intensity_expr_of comp_def kappa_def
        count_abs_sq_unfolded_k sum_list_triv)
  moreover have "length m_range = 5"
    by (simp add: m_range_def create_range_def max_l_def)
  ultimately show ?thesis
    by (simp add: k_values_def)
qed

text \<open>
  C2. The compiled intensity function (with \<^verbatim>\<open>kappa\<close> replaced by \<^verbatim>\<open>pi\<close>) returns, for
  every real \<^verbatim>\<open>theta\<close>, \<^verbatim>\<open>phi\<close>, \<^verbatim>\<open>Phi\<close>, every polarisation \<open>P\<close> in \<open>[0, 1]\<close> and every
  list of complex amplitudes, a real number that is not negative; it never fails. This
  holds whatever the spherical harmonics compute, and the scenario of the specification
  is one instance (see the witness). Values are exact reals, so every value is finite.
\<close>

theorem C2_intensity_nonneg:
  assumes "0 \<le> P" and "P \<le> 1" and "length amps = length amp_symbols"
  shows "\<exists>f v. intensity_func Y = Inr f
           \<and> f ([of_real theta, of_real phi, of_real Phi, of_real P] @ amps) = Inr v
           \<and> Im v = 0 \<and> 0 \<le> Re v"
proof -
  let ?vals = "[of_real theta, of_real phi, of_real Phi, of_real P] @ amps"
  let ?env = "bind_args arguments ?vals"
  have len: "length ?vals = 14"
    using assms(3) by (simp add: length_amp_symbols)
  have P: "?env Py = of_real P"
    using bind_arguments_Py [OF len] by simp
  have "Im (eval Y ?env plotted_expr) = 0 \<and> 0 \<le> Re (eval Y ?env plotted_expr)"
    unfolding eval_plotted_expr
    using plotted_nonneg [where env = ?env and P = P, OF P assms(1,2)] by blast
  then show ?thesis
    using intensity_func_compiles [of Y] intensity_func_call [OF len, of Y] by auto
qed

text \<open>
  The scenario: \<^verbatim>\<open>theta = pi/2\<close>, \<^verbatim>\<open>phi = 0\<close>, \<^verbatim>\<open>Phi = 0\<close>, \<^verbatim>\<open>P = 1\<close>, every coefficient of
  the \<^verbatim>\<open>+\<close> family 0 and every coefficient of the \<^verbatim>\<open>-\<close> family 1 (the \<^verbatim>\<open>+\<close> family comes
  first in \<open>arguments\<close>), with the harmonics of degree 2. There the intensity is 0: the
  weight \<open>1 - P\<close> is 0, the \<^verbatim>\<open>+\<close> family is 0, and every harmonic is real.
\<close>

theorem C2_intensity_nonneg_witness:
  "(0::real) \<le> 1 \<and> (1::real) \<le> 1
   \<and> length [0, 0, 0, 0, 0, 1, 1, 1, 1, 1 :: complex] = length amp_symbols
   \<and> (\<exists>f v. intensity_func Ynm_degree_2 = Inr f
         \<and> f ([of_real (pi / 2), of_real 0, of_real 0, of_real 1]
               @ [0, 0, 0, 0, 0, 1, 1, 1, 1, 1]) = Inr v
         \<and> Im v = 0 \<and> 0 \<le> Re v \<and> v = 0)"
proof -
  have h: "(0::real) \<le> 1" "(1::real) \<le> 1"
    "length [0, 0, 0, 0, 0, 1, 1, 1, 1, 1 :: complex] = length amp_symbols"
    by (simp_all add: length_amp_symbols)
  obtain f v where fv: "intensity_func Ynm_degree_2 = Inr f"
    "f ([of_real (pi / 2), of_real 0, of_real 0, of_real 1]
         @ [0, 0, 0, 0, 0, 1, 1, 1, 1, 1]) = Inr v" "Im v = 0" "0 \<le> Re v"
    using C2_intensity_nonneg [OF h, of Ynm_degree_2 "pi / 2" 0 0] by blast
  have "f = generated_function Ynm_degree_2 arguments plotted_expr"
    using fv(1) by (simp add: intensity_func_compiles)
  then have "v = 0"
    using fv(2) scenario_value by simp
  with h fv show ?thesis by blast
qed

text \<open>
  C3. With polarisation 0 the compiled intensity is the same when the two coefficient
  families are exchanged. The arguments of the function are \<^verbatim>\<open>theta\<close>, \<^verbatim>\<open>phi\<close>, \<^verbatim>\<open>Phi\<close>,
  \<^verbatim>\<open>P_gamma\<close>, the five coefficients of the \<^verbatim>\<open>+\<close> family and the five of the \<^verbatim>\<open>-\<close> family,
  both families in the same order of \<^verbatim>\<open>m\<close>; \<open>x1, ..., x5\<close> and \<open>y1, ..., y5\<close> are any two
  families of complex values.
\<close>

theorem C3_swap_symmetry:
  "arguments = [sym_theta, sym_phi, sym_Phi, Py]
       @ map (\<lambda>mv. Indexed lp [Integer mv, Integer 0]) [- 1, - 2, 0, 1, 2]
       @ map (\<lambda>mv. Indexed lm [Integer mv, Integer 0]) [- 1, - 2, 0, 1, 2]
   \<and> (\<exists>f v. intensity_func Y = Inr f
         \<and> f [t, p, q, 0, x1, x2, x3, x4, x5, y1, y2, y3, y4, y5] = Inr v
         \<and> f [t, p, q, 0, y1, y2, y3, y4, y5, x1, x2, x3, x4, x5] = Inr v)"
proof -
  let ?v = "[t, p, q, 0, x1, x2, x3, x4, x5, y1, y2, y3, y4, y5]"
  let ?w = "[t, p, q, 0, y1, y2, y3, y4, y5, x1, x2, x3, x4, x5]"
  have P: "bind_args arguments ?v Py = 0" "bind_args arguments ?w Py = 0"
    by (simp_all add: bind_arguments_explicit symbol_defs)
  note sw = eval_wave_sums_swap [where Y = Y and t = t and p = p and q = q and P = 0
      and ?x1.0 = x1 and ?x2.0 = x2 and ?x3.0 = x3 and ?x4.0 = x4 and ?x5.0 = x5
      and ?y1.0 = y1 and ?y2.0 = y2 and ?y3.0 = y3 and ?y4.0 = y4 and ?y5.0 = y5]
  have "eval Y (bind_args arguments ?w) (unfolded_k max_l m_range 0)
      = eval Y (bind_args arguments ?v) (unfolded_k max_l m_range 0)"
    unfolding eval_unfolded_k P sw by simp
  then have "eval Y (bind_args arguments ?w) plotted_expr
      = eval Y (bind_args arguments ?v) plotted_expr"
    by (simp add: eval_plotted_expr k_values_def)
  moreover have "arguments = [sym_theta, sym_phi, sym_Phi, Py]
       @ map (\<lambda>mv. Indexed lp [Integer mv, Integer 0]) [- 1, - 2, 0, 1, 2]
       @ map (\<lambda>mv. Indexed lm [Integer mv, Integer 0]) [- 1, - 2, 0, 1, 2]"
    by (simp add: arguments_explicit)
  ultimately show ?thesis
    by (simp add: intensity_func_compiles intensity_func_call)
qed

text \<open>
  C5 (as the code has it). The argument order is fixed when the function is compiled:
  \<^verbatim>\<open>theta\<close>, \<^verbatim>\<open>phi\<close>, \<^verbatim>\<open>Phi\<close>, \<^verbatim>\<open>P_gamma\<close> in this written order, then the \<open>Indexed\<close>
  coefficients in the order of the free symbols sorted by their printed name (by code
  point: \<^verbatim>\<open>-1\<close> before \<^verbatim>\<open>-2\<close> before \<^verbatim>\<open>0\<close>, the \<^verbatim>\<open>+\<close> family before the \<^verbatim>\<open>-\<close> family). The
  sorted free symbols also hold \<^verbatim>\<open>kappa\<close> and the two bases, which are no arguments. The
  i-th number of a call is bound to the i-th entry of \<open>arguments\<close>.
\<close>

theorem C5_argument_order:
  "arguments = [sym_theta, sym_phi, sym_Phi, Py] @ filter isinstance_Indexed free_symbols
   \<and> map str free_symbols =
       [''P_gamma'', ''Phi'', ''[l]^{(+)}'', ''[l]^{(+)}[-1, 0]'', ''[l]^{(+)}[-2, 0]'',
        ''[l]^{(+)}[0, 0]'', ''[l]^{(+)}[1, 0]'', ''[l]^{(+)}[2, 0]'', ''[l]^{(-)}'',
        ''[l]^{(-)}[-1, 0]'', ''[l]^{(-)}[-2, 0]'', ''[l]^{(-)}[0, 0]'', ''[l]^{(-)}[1, 0]'',
        ''[l]^{(-)}[2, 0]'', ''kappa'', ''phi'', ''theta'']
   \<and> sorted (map str free_symbols)
   \<and> map str arguments =
       [''theta'', ''phi'', ''Phi'', ''P_gamma'', ''[l]^{(+)}[-1, 0]'', ''[l]^{(+)}[-2, 0]'',
        ''[l]^{(+)}[0, 0]'', ''[l]^{(+)}[1, 0]'', ''[l]^{(+)}[2, 0]'', ''[l]^{(-)}[-1, 0]'',
        ''[l]^{(-)}[-2, 0]'', ''[l]^{(-)}[0, 0]'', ''[l]^{(-)}[1, 0]'', ''[l]^{(-)}[2, 0]'']
   \<and> map (bind_args arguments [v0, v1, v2, v3, v4, v5, v6, v7, v8, v9, v10, v11, v12, v13])
         arguments
       = [v0, v1, v2, v3, v4, v5, v6, v7, v8, v9, v10, v11, v12, v13]"
proof -
  have names: "map str amp_symbols =
       [''[l]^{(+)}[-1, 0]'', ''[l]^{(+)}[-2, 0]'',
        ''[l]^{(+)}[0, 0]'', ''[l]^{(+)}[1, 0]'', ''[l]^{(+)}[2, 0]'', ''[l]^{(-)}[-1, 0]'',
        ''[l]^{(-)}[-2, 0]'', ''[l]^{(-)}[0, 0]'', ''[l]^{(-)}[1, 0]'', ''[l]^{(-)}[2, 0]'']"
    unfolding amp_symbols_explicit using name_amp by (simp add: name_def)
  have fs: "map str free_symbols =
       [''P_gamma'', ''Phi'', ''[l]^{(+)}'', ''[l]^{(+)}[-1, 0]'', ''[l]^{(+)}[-2, 0]'',
        ''[l]^{(+)}[0, 0]'', ''[l]^{(+)}[1, 0]'', ''[l]^{(+)}[2, 0]'', ''[l]^{(-)}'',
        ''[l]^{(-)}[-1, 0]'', ''[l]^{(-)}[-2, 0]'', ''[l]^{(-)}[0, 0]'', ''[l]^{(-)}[1, 0]'',
        ''[l]^{(-)}[2, 0]'', ''kappa'', ''phi'', ''theta'']"
    by code_simp
  have "sorted (map str free_symbols)"
    unfolding free_symbols_def by (rule sorted_sort_key)
  moreover have "map (bind_args arguments
         [v0, v1, v2, v3, v4, v5, v6, v7, v8, v9, v10, v11, v12, v13]) arguments
       = [v0, v1, v2, v3, v4, v5, v6, v7, v8, v9, v10, v11, v12, v13]"
    unfolding bind_arguments_explicit by (simp add: arguments_explicit symbol_defs)
  moreover have "map str arguments = [''theta'', ''phi'', ''Phi'', ''P_gamma'']
      @ map str amp_symbols"
    by (simp add: arguments_def symbol_defs)
  ultimately show ?thesis
    by (simp add: arguments_def amp_symbols_def [symmetric] names fs)
qed

text \<open>
  C5 as the specification states it fails: the first positional argument is \<^verbatim>\<open>theta\<close>,
  the first of the sorted free symbols is \<^verbatim>\<open>P_gamma\<close>.
\<close>

theorem C5_counterexample:
  "arguments ! 0 = sym_theta \<and> free_symbols ! 0 = Py \<and> sym_theta \<noteq> Py"
  by (simp add: arguments_explicit free_symbols_explicit symbol_defs)




text \<open>
  C7. Unfolding the phase-rotated harmonic \<^verbatim>\<open>Znm\<close> twice gives the same tree as unfolding
  it once, and one unfolding gives \<^verbatim>\<open>Ynm(n, m, theta, phi) * exp(-I*Phi)\<close> (over the
  unfolded arguments, which for the notebook's symbols are the arguments themselves).
\<close>

theorem C7_Znm_doit_idempotent:
  "doit (doit (Znm n m t p q)) = doit (Znm n m t p q)
   \<and> doit (Znm n m t p q)
       = Mul [Ynm (doit n) (doit m) (doit t) (doit p),
              exp_sp (Mul [Integer (- 1), ImaginaryUnit, doit q])]
   \<and> doit znm
       = Mul [Ynm sym_l sym_m sym_theta sym_phi,
              exp_sp (Mul [Integer (- 1), ImaginaryUnit, sym_Phi])]"
  by (simp add: doit_idempotent Znm_evaluate_def symbol_defs)

text \<open>
  C8 (as the code has it). For every \<open>Indexed\<close> coefficient among the arguments there is
  exactly one magnitude slider, with bounds 0 and 2, and exactly one phase slider, with
  bounds 0 and 2; \<^verbatim>\<open>plot\<close> passes to the compiled function, at the position of that
  coefficient, the number \<open>magnitude * exp (phase * \<i>)\<close> of the current values of its
  two sliders. The phase is used in radians, so the phase slider covers \<open>[0, 2]\<close>
  radians.
\<close>

theorem C8_sliders:
  "map (\<lambda>s. map (\<lambda>kv. (slider_min (snd kv), slider_max (snd kv)))
              (filter (\<lambda>kv. fst kv = name s @ ''_mag'') sliders)) amp_symbols
     = map (\<lambda>s. [(0, 2)]) amp_symbols
   \<and> map (\<lambda>s. map (\<lambda>kv. (slider_min (snd kv), slider_max (snd kv)))
              (filter (\<lambda>kv. fst kv = name s @ ''_phi'') sliders)) amp_symbols
     = map (\<lambda>s. [(0, 2)]) amp_symbols
   \<and> arguments = [sym_theta, sym_phi, sym_Phi, Py] @ amp_symbols
   \<and> plot Y theta phi (control_values current)
     = generated_function Y arguments plotted_expr
         ([of_real theta, of_real phi, of_real (current ''Phi_val''),
           of_real (current ''Py_val'')]
          @ map (\<lambda>s. of_real (current (name s @ ''_mag''))
                       * exp (of_real (current (name s @ ''_phi'')) * \<i>)) amp_symbols)"
proof -
  have "map (\<lambda>s. map (\<lambda>kv. (slider_min (snd kv), slider_max (snd kv)))
              (filter (\<lambda>kv. fst kv = name s @ ''_mag'') sliders)) amp_symbols
     = map (\<lambda>s. [(0, 2)]) amp_symbols"
    unfolding amp_symbols_explicit sliders_explicit
    by (simp add: name_amp sliders_init_def mag_slider_def phase_slider_def)
  moreover have "map (\<lambda>s. map (\<lambda>kv. (slider_min (snd kv), slider_max (snd kv)))
              (filter (\<lambda>kv. fst kv = name s @ ''_phi'') sliders)) amp_symbols
     = map (\<lambda>s. [(0, 2)]) amp_symbols"
    unfolding amp_symbols_explicit sliders_explicit
    by (simp add: name_amp sliders_init_def mag_slider_def phase_slider_def)
  ultimately show ?thesis
    by (simp add: arguments_def plot_call amplitude_of_def [abs_def])
qed

text \<open>
  C8 as the specification states it fails: the phase slider of a coefficient spans 2
  radians, which is less than a full turn \<open>2 * pi\<close>.
\<close>

theorem C8_counterexample:
  "map_of sliders ''[l]^{(+)}[-1, 0]_phi''
     = Some \<lparr>description = ''phase'', slider_min = 0, slider_max = 2,
              slider_value = 0, slider_step = 1 / 10\<rparr>
   \<and> (2::real) - 0 < 2 * pi"
proof -
  have "(2::real) \<le> pi" by (rule pi_ge_two)
  then show ?thesis
    by (simp add: sliders_explicit sliders_init_def phase_slider_def)
qed

text \<open>
  C9. \<^verbatim>\<open>kappa\<close> is not an argument of the compiled function. For every call, and for
  every setting of the sliders, the result is the value of the unfolded intensity with
  \<^verbatim>\<open>kappa\<close> equal to \<open>pi\<close>: no control changes the scale.
\<close>

theorem C9_kappa_fixed:
  assumes "length vals = length arguments"
  shows "kappa \<notin> set arguments
    \<and> (\<exists>f. intensity_func Y = Inr f
         \<and> f vals = Inr (eval Y ((bind_args arguments vals)(kappa := of_real pi))
                            (doit intensity_expr)))
    \<and> plot Y theta phi (control_values current)
       = Inr (eval Y ((bind_args arguments
                        ([of_real theta, of_real phi, of_real (current ''Phi_val''),
                          of_real (current ''Py_val'')]
                         @ map (\<lambda>s. of_real (current (name s @ ''_mag''))
                                      * exp (of_real (current (name s @ ''_phi'')) * \<i>))
                             amp_symbols))
                      (kappa := of_real pi))
                (doit intensity_expr))"
proof -
  have len: "length vals = 14"
    using assms by (simp add: length_arguments)
  have "length ([of_real theta, of_real phi, of_real (current ''Phi_val''),
           of_real (current ''Py_val'')] @ map (amplitude_of current) amp_symbols) = 14"
    by (simp add: length_amp_symbols)
  then have "plot Y theta phi (control_values current)
     = Inr (eval Y (bind_args arguments ([of_real theta, of_real phi,
          of_real (current ''Phi_val''), of_real (current ''Py_val'')]
          @ map (amplitude_of current) amp_symbols)) plotted_expr)"
    unfolding plot_call by (rule intensity_func_call)
  then show ?thesis
    using kappa_not_argument intensity_func_call [OF len, of Y]
    by (simp add: intensity_func_compiles eval_plotted_expr_kappa amplitude_of_def [abs_def])
qed

theorem C9_kappa_fixed_witness:
  "length [of_real (pi / 2), 0, 0, 1, 0, 0, 0, 0, 0, 1, 1, 1, 1, 1 :: complex]
       = length arguments
   \<and> kappa \<notin> set arguments
   \<and> (\<exists>f. intensity_func Ynm_degree_2 = Inr f
         \<and> f [of_real (pi / 2), 0, 0, 1, 0, 0, 0, 0, 0, 1, 1, 1, 1, 1]
            = Inr (eval Ynm_degree_2
                    ((bind_args arguments
                       [of_real (pi / 2), 0, 0, 1, 0, 0, 0, 0, 0, 1, 1, 1, 1, 1])
                     (kappa := of_real pi))
                    (doit intensity_expr)))"
proof -
  have h: "length [of_real (pi / 2), 0, 0, 1, 0, 0, 0, 0, 0, 1, 1, 1, 1, 1 :: complex]
       = length arguments"
    by (simp add: length_arguments)
  show ?thesis
    using h C9_kappa_fixed [OF h, of Ynm_degree_2] by blast
qed

text \<open>
  C10. The sum over \<^verbatim>\<open>l\<close> runs over the single value \<^verbatim>\<open>max_l\<close>: the spherical harmonics
  of the unfolded intensity, four for each pair of a flip index and a value of \<^verbatim>\<open>m\<close>,
  all have degree \<^verbatim>\<open>max_l\<close>.
\<close>

theorem C10_single_degree:
  "l_range_of L = [L]
   \<and> Ynm_degrees (doit (intensity_expr_of L k_vals m_vals))
       = replicate (length k_vals * (4 * length m_vals)) (Integer L)"
  by (simp add: l_range_of_def doit_intensity_expr_of kappa_def comp_def
      Ynm_degrees_unfolded_k concat_map_replicate)

end
